theory Spec2Isabelle
  imports Main
begin

section \<open>The cluster labeler of the MySQL operator\<close>

text \<open>
  A shallow embedding of \<^verbatim>\<open>pkg/controllers/cluster/labeler/cluster_labeler.go\<close>.
  The controller (the receiver \<^verbatim>\<open>clc\<close>) is passed explicitly and returned updated.
  Its collaborators (the pod lister, the pod control, the work queue and the store) are
  interfaces of the source; their state is kept in the controller record, every mutating
  call is appended to a trace, and every fallible call may be made to fail by an oracle.
  Go pointers are taken to be non-nil; a nil map is modelled (\<open>None\<close>).
\<close>

subsection \<open>Constants\<close>

definition LabelMySQLClusterRole :: string where
  "LabelMySQLClusterRole = ''v1.mysql.oracle.com/role''"

definition MySQLClusterRolePrimary :: string where
  "MySQLClusterRolePrimary = ''primary''"

definition MySQLClusterRoleSecondary :: string where
  "MySQLClusterRoleSecondary = ''secondary''"

subsection \<open>Data\<close>

text \<open>
  \<^verbatim>\<open>innodb.ClusterStatus\<close> is declared outside the sources; the fields the labeler reads
  are \<^verbatim>\<open>ClusterName\<close> and \<^verbatim>\<open>DefaultReplicaSet.Topology\<close>, a Go map from an address to an
  instance with a \<^verbatim>\<open>Status\<close>. Only \<^verbatim>\<open>InstanceStatusOnline\<close> is compared against.
\<close>

datatype InstanceStatus = InstanceStatusOnline | InstanceStatusOther string

record InnoDBInstance =
  Status :: InstanceStatus

record ReplicaSet =
  Topology :: "string \<rightharpoonup> InnoDBInstance"

record ClusterStatus =
  ClusterName :: string
  DefaultReplicaSet :: ReplicaSet

text \<open>
  \<^verbatim>\<open>cluster.Instance\<close>, the local MySQL instance: the fields and the method \<^verbatim>\<open>Name()\<close>
  that the labeler reads.
\<close>

record Instance =
  Namespace :: string
  ClusterName :: string
  Name :: string
  Port :: int

text \<open>
  \<^verbatim>\<open>corev1.Pod\<close>: name, namespace and labels; \<open>Rest\<close> stands for every other field of the
  object. \<open>Labels\<close> is a Go map, which may be nil (\<open>None\<close>).
\<close>

record Pod =
  Name :: string
  Namespace :: string
  Labels :: "(string \<rightharpoonup> string) option"
  Rest :: string

text \<open>A value of type \<^verbatim>\<open>interface{}\<close>: a cluster status, or a value of another dynamic type
  (given by the name that \<^verbatim>\<open>%T\<close> prints).\<close>

datatype Obj = ClusterStatusObj ClusterStatus | OtherObj string

text \<open>Go errors: \<^verbatim>\<open>fmt.Errorf\<close> with its format and string arguments or an error argument,
  \<^verbatim>\<open>errors.Wrap\<close>/\<^verbatim>\<open>Wrapf\<close> around a cause, and the errors of the collaborators.\<close>

datatype error =
    Errorf string "string list"
  | ErrorfErr string error
  | Wrap error string
  | Wrapf error string "string list"
  | NotFound string string
  | KeyError error
  | ApiError string

text \<open>How a call ends: it returns, it panics, or it blocks (a \<^verbatim>\<open>Get\<close> on an empty queue
  that is not shut down).\<close>

datatype 'a outcome = Returns 'a | Panics | Blocks

text \<open>The mutating calls on the collaborators, in the order they are made.\<close>

datatype Event =
    StoreAdd Obj
  | QueueAdd string
  | QueueGet
  | QueueDone string
  | QueueForget string
  | QueueAddRateLimited string
  | PatchPod Pod Pod "error option"
  | HandleError error

text \<open>
  The controller. \<open>pods\<close> are the pod objects behind \<^verbatim>\<open>podLister\<close> and \<^verbatim>\<open>podControl\<close>;
  \<open>queue\<close> and \<open>shuttingDown\<close> are the work queue; \<open>store\<close> is the \<^verbatim>\<open>cache.Store\<close> keyed by
  \<open>keyFunc\<close>; \<open>faults\<close> is the oracle: each fallible call on a collaborator takes the next
  entry and fails with it when it is an error; \<open>trace\<close> records the mutating calls.
\<close>

record ClusterLabelerController =
  localInstance :: Instance
  pods :: "Pod list"
  queue :: "string list"
  shuttingDown :: bool
  store :: "string \<rightharpoonup> Obj"
  faults :: "error option list"
  trace :: "Event list"

subsection \<open>Label selectors\<close>

datatype Requirement = Equals string string | NotEquals string string | Exists string

type_synonym Selector = "Requirement list"

text \<open>\<^verbatim>\<open>labels.Set(pod.Labels)\<close>: a nil map is the empty set of labels.\<close>

definition labels_Set :: "(string \<rightharpoonup> string) option \<Rightarrow> (string \<rightharpoonup> string)" where
  "labels_Set ls = (case ls of None \<Rightarrow> Map.empty | Some m \<Rightarrow> m)"

fun matchesRequirement :: "(string \<rightharpoonup> string) \<Rightarrow> Requirement \<Rightarrow> bool" where
  "matchesRequirement ls (Equals k v) = (ls k = Some v)"
| "matchesRequirement ls (NotEquals k v) = (ls k \<noteq> Some v)"
| "matchesRequirement ls (Exists k) = (ls k \<noteq> None)"

definition Matches :: "Selector \<Rightarrow> (string \<rightharpoonup> string) \<Rightarrow> bool" where
  "Matches sel ls = list_all (matchesRequirement ls) sel"

text \<open>
  Modelled from the spec: the four selectors are functions of this package that are not
  among the sources. The spec describes them as "currently labeled primary for cluster
  C", "in cluster C but not labeled primary", "carries any role label" and "labeled
  SECONDARY". The key of the label that names a pod's cluster is a constant declared
  elsewhere; it is the parameter \<open>clusterLabel\<close>.
\<close>

definition PrimarySelector :: "string \<Rightarrow> string \<Rightarrow> Selector" where
  "PrimarySelector clusterLabel clusterName =
     [Equals clusterLabel clusterName, Equals LabelMySQLClusterRole MySQLClusterRolePrimary]"

definition SecondarySelector :: "string \<Rightarrow> string \<Rightarrow> Selector" where
  "SecondarySelector clusterLabel clusterName =
     [Equals clusterLabel clusterName, Equals LabelMySQLClusterRole MySQLClusterRoleSecondary]"

definition NonPrimarySelector :: "string \<Rightarrow> string \<Rightarrow> Selector" where
  "NonPrimarySelector clusterLabel clusterName =
     [Equals clusterLabel clusterName, NotEquals LabelMySQLClusterRole MySQLClusterRolePrimary]"

definition HasRoleSelector :: "string \<Rightarrow> string \<Rightarrow> Selector" where
  "HasRoleSelector clusterLabel clusterName =
     [Equals clusterLabel clusterName, Exists LabelMySQLClusterRole]"

subsection \<open>Formatting\<close>

fun digits :: "nat \<Rightarrow> string" where
  "digits n = (if n < 10 then [''0123456789'' ! n]
               else digits (n div 10) @ [''0123456789'' ! (n mod 10)])"

declare digits.simps [simp del]

text \<open>The verb \<^verbatim>\<open>%d\<close> on an \<^verbatim>\<open>int\<close>.\<close>

definition fmt_d :: "int \<Rightarrow> string" where
  "fmt_d i = (if i < 0 then CHR ''-'' # digits (nat (- i)) else digits (nat i))"

text \<open>\<^verbatim>\<open>fmt.Sprintf("%s:%d", name, port)\<close>.\<close>

definition Sprintf_s_d :: "string \<Rightarrow> int \<Rightarrow> string" where
  "Sprintf_s_d name port = name @ '':'' @ fmt_d port"

subsection \<open>The collaborators\<close>

definition nextFault :: "ClusterLabelerController \<Rightarrow> error option \<times> ClusterLabelerController" where
  "nextFault clc =
     (case faults clc of
        [] \<Rightarrow> (None, clc)
      | f # fs \<Rightarrow> (f, clc\<lparr>faults := fs\<rparr>))"

definition emit :: "Event \<Rightarrow> ClusterLabelerController \<Rightarrow> ClusterLabelerController" where
  "emit ev clc = clc\<lparr>trace := trace clc @ [ev]\<rparr>"

definition keyFunc :: "Obj \<Rightarrow> error + string" where
  "keyFunc obj =
     (case obj of
        ClusterStatusObj status \<Rightarrow> Inr (ClusterStatus.ClusterName status)
      | OtherObj t \<Rightarrow> Inl (Errorf ''expected *innodb.ClusterStatus got %T'' [t]))"

text \<open>\<^verbatim>\<open>clc.store.GetByKey(key)\<close>: the object and whether it exists, or an error.\<close>

definition store_GetByKey ::
  "string \<Rightarrow> ClusterLabelerController \<Rightarrow> (error + Obj option) \<times> ClusterLabelerController" where
  "store_GetByKey key clc =
     (case nextFault clc of
        (Some err, clc') \<Rightarrow> (Inl err, clc')
      | (None, clc') \<Rightarrow> (Inr (store clc' key), clc'))"

text \<open>\<^verbatim>\<open>clc.store.Add(obj)\<close>: the store computes the key with \<open>keyFunc\<close> and keeps the
  object under it, replacing an older one.\<close>

definition store_Add ::
  "Obj \<Rightarrow> ClusterLabelerController \<Rightarrow> error option \<times> ClusterLabelerController" where
  "store_Add obj clc =
     (case nextFault clc of
        (Some err, clc') \<Rightarrow> (Some err, clc')
      | (None, clc') \<Rightarrow>
          (case keyFunc obj of
             Inl err \<Rightarrow> (Some (KeyError err), clc')
           | Inr key \<Rightarrow> (None, emit (StoreAdd obj) (clc'\<lparr>store := (store clc')(key \<mapsto> obj)\<rparr>))))"

text \<open>\<^verbatim>\<open>clc.podLister.Pods(namespace).List(selector)\<close>.\<close>

definition podLister_List ::
  "string \<Rightarrow> Selector \<Rightarrow> ClusterLabelerController \<Rightarrow> (error + Pod list) \<times> ClusterLabelerController" where
  "podLister_List namespace sel clc =
     (case nextFault clc of
        (Some err, clc') \<Rightarrow> (Inl err, clc')
      | (None, clc') \<Rightarrow>
          (Inr (filter (\<lambda>pod. Pod.Namespace pod = namespace \<and> Matches sel (labels_Set (Labels pod)))
                  (pods clc')), clc'))"

text \<open>\<^verbatim>\<open>clc.podLister.Pods(namespace).Get(name)\<close>.\<close>

definition podLister_Get ::
  "string \<Rightarrow> string \<Rightarrow> ClusterLabelerController \<Rightarrow> (error + Pod) \<times> ClusterLabelerController" where
  "podLister_Get namespace name clc =
     (case nextFault clc of
        (Some err, clc') \<Rightarrow> (Inl err, clc')
      | (None, clc') \<Rightarrow>
          (case find (\<lambda>pod. Pod.Namespace pod = namespace \<and> Pod.Name pod = name) (pods clc') of
             None \<Rightarrow> (Inl (NotFound namespace name), clc')
           | Some pod \<Rightarrow> (Inr pod, clc')))"

text \<open>
  Modelled from the spec: \<^verbatim>\<open>podControl.PatchPod(old, new)\<close> is declared outside the sources.
  The label mutator applies the change between \<open>old\<close> and \<open>new\<close> to the resource of that
  namespace and name; the lister reads current label state, so \<open>old\<close> is the current
  object and the patched object is \<open>new\<close>. A failed patch changes nothing.
\<close>

definition applyPatch :: "Pod \<Rightarrow> Pod \<Rightarrow> Pod \<Rightarrow> Pod" where
  "applyPatch old new cur =
     (if Pod.Namespace cur = Pod.Namespace old \<and> Pod.Name cur = Pod.Name old then new else cur)"

definition podControl_PatchPod ::
  "Pod \<Rightarrow> Pod \<Rightarrow> ClusterLabelerController \<Rightarrow> error option \<times> ClusterLabelerController" where
  "podControl_PatchPod old new clc =
     (case nextFault clc of
        (Some err, clc') \<Rightarrow> (Some err, emit (PatchPod old new (Some err)) clc')
      | (None, clc') \<Rightarrow>
          (None, emit (PatchPod old new None) (clc'\<lparr>pods := map (applyPatch old new) (pods clc')\<rparr>)))"

text \<open>
  Modelled from the spec: the work queue is a library type. \<^verbatim>\<open>Add\<close> is an idempotent
  enqueue; \<^verbatim>\<open>Get\<close> is a blocking dequeue that reports shutdown when no work is left;
  \<^verbatim>\<open>Done\<close>, \<^verbatim>\<open>Forget\<close> and \<^verbatim>\<open>AddRateLimited\<close> are recorded in the trace (the delayed
  re-add of \<^verbatim>\<open>AddRateLimited\<close> happens in real time and is not modelled).
\<close>

definition queue_Add :: "string \<Rightarrow> ClusterLabelerController \<Rightarrow> ClusterLabelerController" where
  "queue_Add key clc =
     emit (QueueAdd key)
       (if shuttingDown clc \<or> key \<in> set (queue clc) then clc
        else clc\<lparr>queue := queue clc @ [key]\<rparr>)"

definition queue_Get ::
  "ClusterLabelerController \<Rightarrow> (string \<times> bool) outcome \<times> ClusterLabelerController" where
  "queue_Get clc =
     (case queue clc of
        [] \<Rightarrow> (if shuttingDown clc then (Returns ([], True), emit QueueGet clc) else (Blocks, clc))
      | key # rest \<Rightarrow> (Returns (key, False), emit QueueGet (clc\<lparr>queue := rest\<rparr>)))"

subsection \<open>The labeler\<close>

definition DeepCopy :: "Pod \<Rightarrow> Pod" where
  "DeepCopy pod = pod"

text \<open>\<^verbatim>\<open>updateClusterRoleLabel\<close>: \<^verbatim>\<open>delete\<close> on a nil map does nothing, an assignment into
  a nil map panics.\<close>

definition updateClusterRoleLabel ::
  "Pod \<Rightarrow> string \<Rightarrow> ClusterLabelerController \<Rightarrow> error option outcome \<times> ClusterLabelerController" where
  "updateClusterRoleLabel pod val clc =
     (let new = DeepCopy pod in
        if val = [] then
          (case podControl_PatchPod pod
                  (new\<lparr>Labels := map_option (\<lambda>m. m(LabelMySQLClusterRole := None)) (Labels new)\<rparr>) clc of
             (r, clc') \<Rightarrow> (Returns r, clc'))
        else
          (case Labels new of
             None \<Rightarrow> (Panics, clc)
           | Some m \<Rightarrow>
               (case podControl_PatchPod pod (new\<lparr>Labels := Some (m(LabelMySQLClusterRole \<mapsto> val))\<rparr>) clc of
                  (r, clc') \<Rightarrow> (Returns r, clc'))))"

text \<open>\<^verbatim>\<open>inCluster\<close>: the address is a key of the topology and its instance is online.\<close>

definition inCluster :: "ClusterStatus \<Rightarrow> string \<Rightarrow> bool" where
  "inCluster status address =
     (case Topology (DefaultReplicaSet status) address of
        None \<Rightarrow> False
      | Some inst \<Rightarrow> Status inst = InstanceStatusOnline)"

text \<open>The first loop of \<^verbatim>\<open>syncHandler\<close>, over the pods labeled primary; the flag is
  \<^verbatim>\<open>primaryLabeled\<close>.\<close>

fun relabelPrimaries ::
  "ClusterStatus \<Rightarrow> Pod list \<Rightarrow> bool \<Rightarrow> ClusterLabelerController \<Rightarrow>
     (error + bool) outcome \<times> ClusterLabelerController" where
  "relabelPrimaries status [] primaryLabeled clc = (Returns (Inr primaryLabeled), clc)"
| "relabelPrimaries status (pod # rest) primaryLabeled clc =
     (if Pod.Name pod = Instance.Name (localInstance clc) then relabelPrimaries status rest True clc
      else
        (case updateClusterRoleLabel pod
                (if \<not> inCluster status (Sprintf_s_d (Pod.Name pod) (Port (localInstance clc)))
                 then [] else MySQLClusterRoleSecondary) clc of
           (Returns None, clc') \<Rightarrow> relabelPrimaries status rest primaryLabeled clc'
         | (Returns (Some err), clc') \<Rightarrow> (Returns (Inl (Wrap err ''relabeling primary'')), clc')
         | (Panics, clc') \<Rightarrow> (Panics, clc')
         | (Blocks, clc') \<Rightarrow> (Blocks, clc')))"

text \<open>The second loop of \<^verbatim>\<open>syncHandler\<close>, over the pods not labeled primary.\<close>

fun labelNonPrimaries ::
  "string \<Rightarrow> ClusterStatus \<Rightarrow> Pod list \<Rightarrow> ClusterLabelerController \<Rightarrow>
     error option outcome \<times> ClusterLabelerController" where
  "labelNonPrimaries clusterLabel status [] clc = (Returns None, clc)"
| "labelNonPrimaries clusterLabel status (pod # rest) clc =
     (if \<not> inCluster status (Sprintf_s_d (Pod.Name pod) (Port (localInstance clc))) then
        (if Matches (HasRoleSelector clusterLabel (Instance.ClusterName (localInstance clc)))
              (labels_Set (Labels pod)) then
           (case updateClusterRoleLabel pod [] clc of
              (Returns None, clc') \<Rightarrow> labelNonPrimaries clusterLabel status rest clc'
            | (Returns (Some err), clc') \<Rightarrow>
                (Returns (Some (Wrapf err ''removing %q label from %s/%s''
                   [LabelMySQLClusterRole, Pod.Namespace pod, Pod.Name pod])), clc')
            | (Panics, clc') \<Rightarrow> (Panics, clc')
            | (Blocks, clc') \<Rightarrow> (Blocks, clc'))
         else labelNonPrimaries clusterLabel status rest clc)
      else if Pod.Name pod \<noteq> Instance.Name (localInstance clc) \<and>
              \<not> Matches (SecondarySelector clusterLabel (Instance.ClusterName (localInstance clc)))
                  (labels_Set (Labels pod)) then
        (case updateClusterRoleLabel pod MySQLClusterRoleSecondary clc of
           (Returns None, clc') \<Rightarrow> labelNonPrimaries clusterLabel status rest clc'
         | (Returns (Some err), clc') \<Rightarrow>
             (Returns (Some (Wrapf err ''labeling %s/%s as secondary''
                [Pod.Namespace pod, Pod.Name pod])), clc')
         | (Panics, clc') \<Rightarrow> (Panics, clc')
         | (Blocks, clc') \<Rightarrow> (Blocks, clc'))
      else labelNonPrimaries clusterLabel status rest clc)"

text \<open>The part of \<^verbatim>\<open>syncHandler\<close> after the first loop: label the local pod as primary
  unless \<^verbatim>\<open>primaryLabeled\<close>, then list the other pods and run the second loop.\<close>

definition labelLocalAndRest ::
  "string \<Rightarrow> ClusterStatus \<Rightarrow> bool \<Rightarrow> ClusterLabelerController \<Rightarrow>
     error option outcome \<times> ClusterLabelerController" where
  "labelLocalAndRest clusterLabel status primaryLabeled clc =
     (case (if \<not> primaryLabeled then
              (case podLister_Get (Instance.Namespace (localInstance clc))
                      (Instance.Name (localInstance clc)) clc of
                 (Inl err, clc1) \<Rightarrow> (Returns (Some (Wrap err ''failed to get primary Pod'')), clc1)
               | (Inr primary, clc1) \<Rightarrow>
                   (case updateClusterRoleLabel primary MySQLClusterRolePrimary clc1 of
                      (Returns (Some err), clc2) \<Rightarrow>
                        (Returns (Some (Wrapf err ''labeling %s/%s as primary''
                           [Pod.Namespace primary, Pod.Name primary])), clc2)
                    | other \<Rightarrow> other))
            else (Returns None, clc)) of
        (Returns None, clc3) \<Rightarrow>
          (case podLister_List (Instance.Namespace (localInstance clc3))
                  (NonPrimarySelector clusterLabel (Instance.ClusterName (localInstance clc3))) clc3 of
             (Inl err, clc4) \<Rightarrow> (Returns (Some (Wrap err ''failed to list non-primary Cluster pods'')), clc4)
           | (Inr nonPrimaries, clc4) \<Rightarrow> labelNonPrimaries clusterLabel status nonPrimaries clc4)
      | other \<Rightarrow> other)"

text \<open>\<^verbatim>\<open>syncHandler\<close>. The object in the store is asserted to be a cluster status; the
  assertion panics on any other value.\<close>

definition syncHandler ::
  "string \<Rightarrow> string \<Rightarrow> ClusterLabelerController \<Rightarrow> error option outcome \<times> ClusterLabelerController" where
  "syncHandler clusterLabel key clc =
     (case store_GetByKey key clc of
        (Inl err, clc1) \<Rightarrow> (Returns (Some (Wrapf err ''getting key %q out of store'' [key])), clc1)
      | (Inr None, clc1) \<Rightarrow>
          (Returns None, emit (HandleError (Errorf ''key %q in work queue no longer exists'' [key])) clc1)
      | (Inr (Some (OtherObj t)), clc1) \<Rightarrow> (Panics, clc1)
      | (Inr (Some (ClusterStatusObj status)), clc1) \<Rightarrow>
          (case podLister_List (Instance.Namespace (localInstance clc1))
                  (PrimarySelector clusterLabel (Instance.ClusterName (localInstance clc1))) clc1 of
             (Inl err, clc2) \<Rightarrow> (Returns (Some (Wrap err ''failed to list primaries'')), clc2)
           | (Inr primaries, clc2) \<Rightarrow>
               (case relabelPrimaries status primaries False clc2 of
                  (Returns (Inl err), clc3) \<Rightarrow> (Returns (Some err), clc3)
                | (Returns (Inr primaryLabeled), clc3) \<Rightarrow>
                    labelLocalAndRest clusterLabel status primaryLabeled clc3
                | (Panics, clc3) \<Rightarrow> (Panics, clc3)
                | (Blocks, clc3) \<Rightarrow> (Blocks, clc3))))"

text \<open>\<^verbatim>\<open>processNextWorkItem\<close>. The deferred \<^verbatim>\<open>Done\<close> runs when the inner function returns
  or panics: after \<^verbatim>\<open>Forget\<close> on success, before \<^verbatim>\<open>AddRateLimited\<close> on an error.\<close>

definition processNextWorkItem ::
  "string \<Rightarrow> ClusterLabelerController \<Rightarrow> bool outcome \<times> ClusterLabelerController" where
  "processNextWorkItem clusterLabel clc =
     (case queue_Get clc of
        (Returns (key, shutdown), clc1) \<Rightarrow>
          (if shutdown then (Returns False, clc1)
           else
             (case syncHandler clusterLabel key clc1 of
                (Returns None, clc2) \<Rightarrow>
                  (Returns True, emit (QueueDone key) (emit (QueueForget key) clc2))
              | (Returns (Some err), clc2) \<Rightarrow>
                  (Returns True,
                   emit (QueueAddRateLimited key)
                     (emit (HandleError (ErrorfErr ''Error syncing cluster status: %+v''
                                           (Wrapf err ''error syncing %q'' [key])))
                        (emit (QueueDone key) clc2)))
              | (Panics, clc2) \<Rightarrow> (Panics, emit (QueueDone key) clc2)
              | (Blocks, clc2) \<Rightarrow> (Blocks, clc2)))
      | (Panics, clc1) \<Rightarrow> (Panics, clc1)
      | (Blocks, clc1) \<Rightarrow> (Blocks, clc1))"

text \<open>\<^verbatim>\<open>EnqueueClusterStatus\<close>.\<close>

definition EnqueueClusterStatus ::
  "Obj \<Rightarrow> ClusterLabelerController \<Rightarrow> error option \<times> ClusterLabelerController" where
  "EnqueueClusterStatus obj clc =
     (case keyFunc obj of
        Inl err \<Rightarrow> (Some err, clc)
      | Inr key \<Rightarrow>
          (case store_Add obj clc of
             (Some err, clc1) \<Rightarrow> (Some (Wrap err ''adding cluster status to store''), clc1)
           | (None, clc1) \<Rightarrow> (None, queue_Add key clc1)))"

subsection \<open>Notions used to state the properties\<close>

text \<open>A pod is identified by its namespace and its name; the pod objects of a cluster
  are unique by that.\<close>

definition ident :: "Pod \<Rightarrow> string \<times> string" where
  "ident pod = (Pod.Namespace pod, Pod.Name pod)"


text \<open>The role a pod bears: the value of its role label, if any.\<close>

definition roleOf :: "Pod \<Rightarrow> string option" where
  "roleOf pod = labels_Set (Labels pod) LabelMySQLClusterRole"

text \<open>A member pod of the local instance's cluster: a pod of its namespace whose cluster
  label names its cluster; and the local instance's own pod.\<close>

definition isMember :: "string \<Rightarrow> Instance \<Rightarrow> Pod \<Rightarrow> bool" where
  "isMember clusterLabel li pod =
     (Pod.Namespace pod = Instance.Namespace li \<and>
      labels_Set (Labels pod) clusterLabel = Some (Instance.ClusterName li))"

definition isLocal :: "Instance \<Rightarrow> Pod \<Rightarrow> bool" where
  "isLocal li pod = (Pod.Namespace pod = Instance.Namespace li \<and> Pod.Name pod = Instance.Name li)"

text \<open>The copy that \<open>updateClusterRoleLabel\<close> submits, when it does not panic.\<close>

definition setRole :: "Pod \<Rightarrow> string \<Rightarrow> Pod" where
  "setRole pod val = pod\<lparr>Labels := Some ((labels_Set (Labels pod))(LabelMySQLClusterRole \<mapsto> val))\<rparr>"

definition clearRole :: "Pod \<Rightarrow> Pod" where
  "clearRole pod = pod\<lparr>Labels := map_option (\<lambda>m. m(LabelMySQLClusterRole := None)) (Labels pod)\<rparr>"

definition roleCopy :: "Pod \<Rightarrow> string \<Rightarrow> Pod" where
  "roleCopy pod val = (if val = [] then clearRole pod else setRole pod val)"

text \<open>The pods that the \<^verbatim>\<open>PatchPod\<close> calls of a trace were made on, and the effect of the
  calls of a trace on the pod objects.\<close>

fun patchedPods :: "Event list \<Rightarrow> Pod list" where
  "patchedPods [] = []"
| "patchedPods (PatchPod old new out # evs) = old # patchedPods evs"
| "patchedPods (ev # evs) = patchedPods evs"

fun applyEvent :: "Event \<Rightarrow> Pod list \<Rightarrow> Pod list" where
  "applyEvent (PatchPod old new None) ps = map (applyPatch old new) ps"
| "applyEvent ev ps = ps"

text \<open>What no call of the labeler changes but \<open>pods\<close>, \<open>faults\<close> and \<open>trace\<close>.\<close>

definition sameController :: "ClusterLabelerController \<Rightarrow> ClusterLabelerController \<Rightarrow> bool" where
  "sameController clc clc' =
     (localInstance clc' = localInstance clc \<and> store clc' = store clc \<and>
      queue clc' = queue clc \<and> shuttingDown clc' = shuttingDown clc)"


subsection \<open>An example cluster\<close>

text \<open>
  Three pods of the cluster \<open>mysql\<close> in the namespace \<open>default\<close>; the local instance is
  \<open>mysql-0\<close>. The topology has \<open>mysql-0\<close> and \<open>mysql-1\<close> online and does not have \<open>mysql-2\<close>;
  \<open>mysql-1\<close> is labeled primary and \<open>mysql-2\<close> secondary.
\<close>

definition exampleClusterLabel :: string where
  "exampleClusterLabel = ''v1.mysql.oracle.com/cluster''"

definition examplePod :: "string \<Rightarrow> string option \<Rightarrow> Pod" where
  "examplePod name role =
     \<lparr>Pod.Name = name, Namespace = ''default'',
      Labels = Some (case role of
                       None \<Rightarrow> [exampleClusterLabel \<mapsto> ''mysql'']
                     | Some r \<Rightarrow> [exampleClusterLabel \<mapsto> ''mysql'', LabelMySQLClusterRole \<mapsto> r]),
      Rest = ''spec''\<rparr>"

definition exampleStatus :: ClusterStatus where
  "exampleStatus =
     \<lparr>ClusterStatus.ClusterName = ''mysql'',
      DefaultReplicaSet = \<lparr>Topology =
        [''mysql-0:3306'' \<mapsto> \<lparr>Status = InstanceStatusOnline\<rparr>,
         ''mysql-1:3306'' \<mapsto> \<lparr>Status = InstanceStatusOnline\<rparr>]\<rparr>\<rparr>"

definition exampleLocal :: Instance where
  "exampleLocal =
     \<lparr>Instance.Namespace = ''default'', ClusterName = ''mysql'', Name = ''mysql-0'', Port = 3306\<rparr>"

definition exampleController :: ClusterLabelerController where
  "exampleController =
     \<lparr>localInstance = exampleLocal,
      pods = [examplePod ''mysql-0'' None, examplePod ''mysql-1'' (Some ''primary''),
              examplePod ''mysql-2'' (Some ''secondary'')],
      queue = [''mysql''], shuttingDown = False,
      store = [''mysql'' \<mapsto> ClusterStatusObj exampleStatus], faults = [], trace = []\<rparr>"

text \<open>The names and roles of the pod objects.\<close>

definition podRoles :: "ClusterLabelerController \<Rightarrow> (string \<times> string option) list" where
  "podRoles clc = map (\<lambda>pod. (Pod.Name pod, roleOf pod)) (pods clc)"

text \<open>A pod whose \<open>Labels\<close> map is nil.\<close>

definition barePod :: Pod where
  "barePod = \<lparr>Pod.Name = ''mysql-3'', Namespace = ''default'', Labels = None, Rest = ''spec''\<rparr>"



text \<open>The example with an empty queue, and with a store whose next call fails.\<close>

definition idleController :: ClusterLabelerController where
  "idleController = exampleController\<lparr>queue := [], store := Map.empty\<rparr>"

definition failingStoreController :: ClusterLabelerController where
  "failingStoreController = idleController\<lparr>faults := [Some (ApiError ''store closed'')]\<rparr>"

text \<open>The example with a pod control whose second \<^verbatim>\<open>PatchPod\<close> call fails: the five
  calls of the pass on collaborators that can fail are the store lookup, the first list
  call, the patch of \<open>mysql-1\<close>, the fetch of the local pod and the patch of the local pod.\<close>

definition conflictController :: ClusterLabelerController where
  "conflictController = exampleController\<lparr>faults := [None, None, None, None, Some (ApiError ''conflict'')]\<rparr>"



subsection \<open>The updates of a pass\<close>

text \<open>The role value that both loops of \<open>syncHandler\<close> give a pod they relabel: none when
  the pod's address is not online in the topology, secondary when it is.\<close>

definition roleFor :: "ClusterStatus \<Rightarrow> Instance \<Rightarrow> Pod \<Rightarrow> string" where
  "roleFor status li pod =
     (if \<not> inCluster status (Sprintf_s_d (Pod.Name pod) (Port li)) then []
      else MySQLClusterRoleSecondary)"

definition relabeled :: "ClusterStatus \<Rightarrow> Instance \<Rightarrow> Pod \<Rightarrow> Pod" where
  "relabeled status li pod = roleCopy pod (roleFor status li pod)"

text \<open>The pods of a list that the second loop updates.\<close>

definition needsUpdate :: "string \<Rightarrow> ClusterStatus \<Rightarrow> Instance \<Rightarrow> Pod \<Rightarrow> bool" where
  "needsUpdate clusterLabel status li pod =
     (if \<not> inCluster status (Sprintf_s_d (Pod.Name pod) (Port li))
      then Matches (HasRoleSelector clusterLabel (Instance.ClusterName li)) (labels_Set (Labels pod))
      else Pod.Name pod \<noteq> Instance.Name li \<and>
           \<not> Matches (SecondarySelector clusterLabel (Instance.ClusterName li)) (labels_Set (Labels pod)))"

text \<open>The updates of a loop, one pod after the other, up to the first that fails or
  panics; the result names the error and the pod it was made on.\<close>

fun updateAll ::
  "ClusterStatus \<Rightarrow> Pod list \<Rightarrow> ClusterLabelerController \<Rightarrow>
     (error \<times> Pod) option outcome \<times> ClusterLabelerController" where
  "updateAll status [] clc = (Returns None, clc)"
| "updateAll status (pod # rest) clc =
     (case updateClusterRoleLabel pod (roleFor status (localInstance clc) pod) clc of
        (Returns None, clc') \<Rightarrow> updateAll status rest clc'
      | (Returns (Some err), clc') \<Rightarrow> (Returns (Some (err, pod)), clc')
      | (Panics, clc') \<Rightarrow> (Panics, clc')
      | (Blocks, clc') \<Rightarrow> (Blocks, clc'))"

text \<open>A run from one controller state to another that made the calls \<open>evs\<close>: the
  trace grows by them and the pod objects change by the patches among them that
  succeeded.\<close>

definition stepsTo ::
  "ClusterLabelerController \<Rightarrow> Event list \<Rightarrow> ClusterLabelerController \<Rightarrow> bool" where
  "stepsTo clc evs clc' =
     (sameController clc clc' \<and> trace clc' = trace clc @ evs \<and>
      pods clc' = fold applyEvent evs (pods clc))"

text \<open>A \<^verbatim>\<open>PatchPod\<close> call that failed, and an error that wraps a cause directly.\<close>

fun failedPatch :: "Event \<Rightarrow> bool" where
  "failedPatch (PatchPod old new (Some err)) = True"
| "failedPatch ev = False"

fun wrapsOnce :: "error \<Rightarrow> error \<Rightarrow> bool" where
  "wrapsOnce cause (Wrap err msg) = (err = cause)"
| "wrapsOnce cause (Wrapf err msg args) = (err = cause)"
| "wrapsOnce cause err = False"

text \<open>The selections of the two list calls, and the three steps of a pass as functions
  on a pod object: the first loop, the labeling of the local pod, the second loop.\<close>

definition listedPrimary :: "string \<Rightarrow> Instance \<Rightarrow> Pod \<Rightarrow> bool" where
  "listedPrimary clusterLabel li pod =
     (Pod.Namespace pod = Instance.Namespace li \<and>
      Matches (PrimarySelector clusterLabel (Instance.ClusterName li)) (labels_Set (Labels pod)))"

definition listedNonPrimary :: "string \<Rightarrow> Instance \<Rightarrow> Pod \<Rightarrow> bool" where
  "listedNonPrimary clusterLabel li pod =
     (Pod.Namespace pod = Instance.Namespace li \<and>
      Matches (NonPrimarySelector clusterLabel (Instance.ClusterName li)) (labels_Set (Labels pod)))"

definition afterPrimaries :: "string \<Rightarrow> ClusterStatus \<Rightarrow> Instance \<Rightarrow> Pod \<Rightarrow> Pod" where
  "afterPrimaries clusterLabel status li pod =
     (if listedPrimary clusterLabel li pod \<and> Pod.Name pod \<noteq> Instance.Name li
      then relabeled status li pod else pod)"

definition afterLocal :: "Instance \<Rightarrow> Pod \<Rightarrow> Pod" where
  "afterLocal li pod = (if isLocal li pod then setRole pod MySQLClusterRolePrimary else pod)"

definition afterNonPrimaries :: "string \<Rightarrow> ClusterStatus \<Rightarrow> Instance \<Rightarrow> Pod \<Rightarrow> Pod" where
  "afterNonPrimaries clusterLabel status li pod =
     (if listedNonPrimary clusterLabel li pod \<and> needsUpdate clusterLabel status li pod
      then relabeled status li pod else pod)"


text \<open>The \<^verbatim>\<open>PatchPod\<close> call of a successful update of a pod in a loop, and the shape of the
  calls of a pass: a \<^verbatim>\<open>PatchPod\<close> call that failed is the last call, and the result is
  then an error that wraps its error.\<close>

definition patched :: "ClusterStatus \<Rightarrow> Instance \<Rightarrow> Pod \<Rightarrow> Event" where
  "patched status li pod = PatchPod pod (relabeled status li pod) None"

definition noFailure :: "Event list \<Rightarrow> bool" where
  "noFailure evs = list_all (\<lambda>ev. \<not> failedPatch ev) evs"

definition passShape :: "Event list \<Rightarrow> error option outcome \<Rightarrow> bool" where
  "passShape evs r =
     (noFailure evs \<or>
      (\<exists>evs0 old new cause wrapped.
         evs = evs0 @ [PatchPod old new (Some cause)] \<and> noFailure evs0 \<and>
         r = Returns (Some wrapped) \<and> wrapsOnce cause wrapped))"

text \<open>A pass as a function on a pod object.\<close>

definition afterPass :: "string \<Rightarrow> ClusterStatus \<Rightarrow> Instance \<Rightarrow> Pod \<Rightarrow> Pod" where
  "afterPass clusterLabel status li pod =
     afterNonPrimaries clusterLabel status li (afterLocal li (afterPrimaries clusterLabel status li pod))"

text \<open>The \<^verbatim>\<open>PatchPod\<close> call that failed, when a loop ended with an error.\<close>

fun failureEvent :: "ClusterStatus \<Rightarrow> Instance \<Rightarrow> (error \<times> Pod) option outcome \<Rightarrow> Event list" where
  "failureEvent status li (Returns (Some (err, pod))) =
     [PatchPod pod (relabeled status li pod) (Some err)]"
| "failureEvent status li r = []"

text \<open>What \<open>syncHandler\<close> makes of the end of its first loop, of the labeling of the local
  pod and of the end of its second loop.\<close>

fun firstLoopResult :: "bool \<Rightarrow> (error \<times> Pod) option outcome \<Rightarrow> (error + bool) outcome" where
  "firstLoopResult primaryLabeled (Returns None) = Returns (Inr primaryLabeled)"
| "firstLoopResult primaryLabeled (Returns (Some (err, pod))) =
     Returns (Inl (Wrap err ''relabeling primary''))"
| "firstLoopResult primaryLabeled Panics = Panics"
| "firstLoopResult primaryLabeled Blocks = Blocks"

fun localResult :: "Pod \<Rightarrow> error option outcome \<Rightarrow> error option outcome" where
  "localResult primary (Returns (Some err)) =
     Returns (Some (Wrapf err ''labeling %s/%s as primary'' [Pod.Namespace primary, Pod.Name primary]))"
| "localResult primary other = other"

fun secondLoopResult ::
  "ClusterStatus \<Rightarrow> Instance \<Rightarrow> (error \<times> Pod) option outcome \<Rightarrow> error option outcome" where
  "secondLoopResult status li (Returns None) = Returns None"
| "secondLoopResult status li (Returns (Some (err, pod))) =
     Returns (Some
       (if \<not> inCluster status (Sprintf_s_d (Pod.Name pod) (Port li))
        then Wrapf err ''removing %q label from %s/%s''
               [LabelMySQLClusterRole, Pod.Namespace pod, Pod.Name pod]
        else Wrapf err ''labeling %s/%s as secondary'' [Pod.Namespace pod, Pod.Name pod]))"
| "secondLoopResult status li Panics = Panics"
| "secondLoopResult status li Blocks = Blocks"

fun firstLoopError :: "(error \<times> Pod) option outcome \<Rightarrow> error option outcome" where
  "firstLoopError (Returns None) = Returns None"
| "firstLoopError (Returns (Some (err, pod))) = Returns (Some (Wrap err ''relabeling primary''))"
| "firstLoopError Panics = Panics"
| "firstLoopError Blocks = Blocks"

subsection \<open>The runs of a pass\<close>

text \<open>
  The calls that a pass can make, from the pod objects it starts with. A loop over the
  pods \<open>ps\<close> patches a first part of them and ends there with a failed patch or a panic,
  or patches them all.
\<close>

definition loopRun ::
  "ClusterStatus \<Rightarrow> Instance \<Rightarrow> Pod list \<Rightarrow> Event list \<Rightarrow> (error \<times> Pod) option outcome \<Rightarrow> bool" where
  "loopRun status li ps evs r =
     (r \<noteq> Blocks \<and>
      (\<exists>pre rest. ps = pre @ rest \<and>
         evs = map (patched status li) pre @ failureEvent status li r \<and>
         (r = Returns None \<longrightarrow> rest = []) \<and>
         (\<forall>err pod. r = Returns (Some (err, pod)) \<longrightarrow> (\<exists>rest'. rest = pod # rest'))))"

text \<open>The labeling of the local pod, from the flag \<open>primaryLabeled\<close> and the pod objects
  after the first loop.\<close>

definition localRun ::
  "bool \<Rightarrow> Instance \<Rightarrow> Pod list \<Rightarrow> Event list \<Rightarrow> error option outcome \<Rightarrow> bool" where
  "localRun primaryLabeled li ps evs r =
     (if primaryLabeled then evs = [] \<and> r = Returns None
      else (\<exists>err. evs = [] \<and> r = Returns (Some (Wrap err ''failed to get primary Pod''))) \<or>
           (\<exists>primary. find (isLocal li) ps = Some primary \<and>
              (if Labels primary = None then evs = [] \<and> r = Panics
               else \<exists>out. evs = [PatchPod primary (roleCopy primary MySQLClusterRolePrimary) out] \<and>
                          r = localResult primary (Returns out))))"

text \<open>The second list call and the second loop, from the pod objects after the labeling
  of the local pod.\<close>

definition restRun ::
  "string \<Rightarrow> ClusterStatus \<Rightarrow> Instance \<Rightarrow> Pod list \<Rightarrow> Event list \<Rightarrow> error option outcome \<Rightarrow> bool" where
  "restRun clusterLabel status li ps evs r =
     ((\<exists>err. evs = [] \<and> r = Returns (Some (Wrap err ''failed to list non-primary Cluster pods''))) \<or>
      (\<exists>r3. loopRun status li
               (filter (\<lambda>q. listedNonPrimary clusterLabel li q \<and> needsUpdate clusterLabel status li q) ps)
               evs r3 \<and>
            r = secondLoopResult status li r3))"

definition afterLoopRun ::
  "string \<Rightarrow> ClusterStatus \<Rightarrow> Instance \<Rightarrow> bool \<Rightarrow> Pod list \<Rightarrow> Event list \<Rightarrow>
     error option outcome \<Rightarrow> bool" where
  "afterLoopRun clusterLabel status li primaryLabeled ps evs r =
     (\<exists>evs2 rl. localRun primaryLabeled li ps evs2 rl \<and>
        (if rl = Returns None
         then \<exists>evs3. restRun clusterLabel status li (fold applyEvent evs2 ps) evs3 r \<and> evs = evs2 @ evs3
         else evs = evs2 \<and> r = rl))"

text \<open>A pass on a snapshot: a read fails before the first loop, or the first loop runs
  and, when it has patched all its pods, the rest of the pass.\<close>

definition passRun ::
  "string \<Rightarrow> ClusterStatus \<Rightarrow> Instance \<Rightarrow> Pod list \<Rightarrow> Event list \<Rightarrow> error option outcome \<Rightarrow> bool" where
  "passRun clusterLabel status li ps evs r =
     ((\<exists>err msg args. evs = [] \<and> (r = Returns (Some (Wrapf err msg args)) \<or> r = Returns (Some (Wrap err msg)))) \<or>
      (\<exists>evs1 r1.
         loopRun status li
           (filter (\<lambda>q. listedPrimary clusterLabel li q \<and> Pod.Name q \<noteq> Instance.Name li) ps) evs1 r1 \<and>
         (if r1 = Returns None
          then \<exists>evs'. afterLoopRun clusterLabel status li
                        (\<exists>q\<in>set ps. listedPrimary clusterLabel li q \<and> Pod.Name q = Instance.Name li)
                        (fold applyEvent evs1 ps) evs' r \<and>
                      evs = evs1 @ evs'
          else evs = evs1 \<and> r = firstLoopError r1)))"

text \<open>The \<^verbatim>\<open>PatchPod\<close> calls that a pass on a snapshot can make on a pod: with a copy
  labeled primary, or with a copy relabeled after the topology.\<close>

fun passPatch :: "ClusterStatus \<Rightarrow> Instance \<Rightarrow> Event \<Rightarrow> bool" where
  "passPatch status li (PatchPod old new out) =
     (new = roleCopy old MySQLClusterRolePrimary \<or> new = relabeled status li old)"
| "passPatch status li ev = False"

section \<open>Properties\<close>

subsection \<open>Facts about the collaborators and the label update\<close>

lemma sameController_refl [simp]: "sameController clc clc"
  by (simp add: sameController_def)

lemma sameController_trans:
  "sameController a b \<Longrightarrow> sameController b c \<Longrightarrow> sameController a c"
  by (simp add: sameController_def)

lemma patchedPods_append [simp]: "patchedPods (xs @ ys) = patchedPods xs @ patchedPods ys"
  by (induction xs rule: patchedPods.induct) simp_all

lemma nextFault_frame:
  "nextFault clc = (f, clc') \<Longrightarrow>
     sameController clc clc' \<and> pods clc' = pods clc \<and> trace clc' = trace clc"
  by (auto simp: nextFault_def sameController_def split: list.splits)

lemma PatchPod_cases:
  assumes "podControl_PatchPod old new clc = (out, clc')"
  shows "sameController clc clc' \<and> trace clc' = trace clc @ [PatchPod old new out] \<and>
         pods clc' = (if out = None then map (applyPatch old new) (pods clc) else pods clc)"
  using assms
  by (auto simp: podControl_PatchPod_def emit_def nextFault_def sameController_def
           split: list.splits option.splits prod.splits)

lemma updateClusterRoleLabel_cases:
  assumes "updateClusterRoleLabel pod val clc = (r, clc')"
  shows "(r = Panics \<and> clc' = clc \<and> Labels pod = None \<and> val \<noteq> []) \<or>
         (\<exists>out. r = Returns out \<and> (val = [] \<or> Labels pod \<noteq> None) \<and> sameController clc clc' \<and>
            trace clc' = trace clc @ [PatchPod pod (roleCopy pod val) out] \<and>
            pods clc' = (if out = None then map (applyPatch pod (roleCopy pod val)) (pods clc)
                         else pods clc))"
proof (cases "val = []")
  case True
  then obtain out where
    "podControl_PatchPod pod (clearRole pod) clc = (out, clc')" "r = Returns out"
    using assms
    by (auto simp: updateClusterRoleLabel_def DeepCopy_def clearRole_def Let_def split: prod.splits)
  with True PatchPod_cases [OF this(1)] show ?thesis
    by (simp add: roleCopy_def)
next
  case False
  show ?thesis
  proof (cases "Labels pod")
    case None
    with False assms show ?thesis
      by (simp add: updateClusterRoleLabel_def DeepCopy_def)
  next
    case (Some m)
    then have copy: "roleCopy pod val = pod\<lparr>Labels := Some (m(LabelMySQLClusterRole \<mapsto> val))\<rparr>"
      using False by (simp add: roleCopy_def setRole_def labels_Set_def)
    obtain out where
      "podControl_PatchPod pod (roleCopy pod val) clc = (out, clc')" "r = Returns out"
      using assms False Some copy
      by (auto simp: updateClusterRoleLabel_def DeepCopy_def Let_def split: prod.splits)
    with Some PatchPod_cases [OF this(1)] show ?thesis
      by simp
  qed
qed

lemma roleCopy_frame:
  "(roleCopy pod val)\<lparr>Labels := Labels pod\<rparr> = pod"
  "k \<noteq> LabelMySQLClusterRole \<Longrightarrow>
     labels_Set (Labels (roleCopy pod val)) k = labels_Set (Labels pod) k"
  by (auto simp: roleCopy_def setRole_def clearRole_def labels_Set_def split: option.splits)

lemma digits_3306: "digits 3306 = ''3306''"
  by (simp add: digits.simps)

lemmas example_defs =
  exampleClusterLabel_def examplePod_def exampleStatus_def exampleLocal_def exampleController_def
  podRoles_def roleOf_def barePod_def

lemmas labeler_defs =
  syncHandler_def labelLocalAndRest_def store_GetByKey_def podLister_List_def podLister_Get_def
  podControl_PatchPod_def updateClusterRoleLabel_def nextFault_def emit_def applyPatch_def
  inCluster_def Sprintf_s_d_def fmt_d_def Matches_def PrimarySelector_def NonPrimarySelector_def
  SecondarySelector_def HasRoleSelector_def labels_Set_def DeepCopy_def LabelMySQLClusterRole_def
  MySQLClusterRolePrimary_def MySQLClusterRoleSecondary_def

subsection \<open>The label update\<close>

text \<open>
  C7. Whatever the pod and the role value, when \<open>updateClusterRoleLabel\<close> calls
  \<^verbatim>\<open>PatchPod\<close> it makes that one call, on the pod itself and a copy: the copy has every
  field of the pod but \<open>Labels\<close>, and its labels agree with the pod's on every key
  other than \<open>LabelMySQLClusterRole\<close>. When it makes no call it has panicked and nothing
  has changed.
\<close>

theorem updateClusterRoleLabel_frame:
  assumes "updateClusterRoleLabel pod val clc = (r, clc')"
  shows "(r = Panics \<and> clc' = clc) \<or>
         (\<exists>out new. r = Returns out \<and> trace clc' = trace clc @ [PatchPod pod new out] \<and>
            new\<lparr>Labels := Labels pod\<rparr> = pod \<and>
            (\<forall>k. k \<noteq> LabelMySQLClusterRole \<longrightarrow>
               labels_Set (Labels new) k = labels_Set (Labels pod) k))"
proof (cases r)
  case (Returns out)
  with updateClusterRoleLabel_cases [OF assms]
  have "trace clc' = trace clc @ [PatchPod pod (roleCopy pod val) out]"
    by auto
  with Returns roleCopy_frame show ?thesis
    by blast
next
  case Panics
  with updateClusterRoleLabel_cases [OF assms] show ?thesis
    by auto
next
  case Blocks
  with updateClusterRoleLabel_cases [OF assms] show ?thesis
    by auto
qed

theorem updateClusterRoleLabel_frame_witness:
  "\<exists>new. trace (snd (updateClusterRoleLabel (examplePod ''mysql-1'' (Some ''primary''))
                      MySQLClusterRoleSecondary exampleController))
          = [PatchPod (examplePod ''mysql-1'' (Some ''primary'')) new None] \<and>
     new = examplePod ''mysql-1'' (Some ''secondary'')"
  using updateClusterRoleLabel_frame [of "examplePod ''mysql-1'' (Some ''primary'')"
    MySQLClusterRoleSecondary exampleController
    "fst (updateClusterRoleLabel (examplePod ''mysql-1'' (Some ''primary''))
            MySQLClusterRoleSecondary exampleController)"
    "snd (updateClusterRoleLabel (examplePod ''mysql-1'' (Some ''primary''))
            MySQLClusterRoleSecondary exampleController)"]
  by (simp add: example_defs labeler_defs)

text \<open>
  C9. On a pod whose \<open>Labels\<close> map is nil, \<open>updateClusterRoleLabel\<close> with a role value
  that is not empty panics (the assignment into the nil map), before any call on a
  collaborator: it returns no error. With the empty value it does not panic: it calls
  \<^verbatim>\<open>PatchPod\<close> with a copy equal to the pod and returns what the call returns.
\<close>

theorem updateClusterRoleLabel_nil_Labels:
  assumes "Labels pod = None"
  shows "(val \<noteq> [] \<longrightarrow> updateClusterRoleLabel pod val clc = (Panics, clc)) \<and>
         (\<exists>out. fst (updateClusterRoleLabel pod [] clc) = Returns out \<and>
            trace (snd (updateClusterRoleLabel pod [] clc)) = trace clc @ [PatchPod pod pod out])"
proof -
  have "pod\<lparr>Labels := None\<rparr> = pod"
    using assms by simp
  then show ?thesis
    using assms
    by (auto simp: updateClusterRoleLabel_def DeepCopy_def podControl_PatchPod_def emit_def
          nextFault_def split: list.splits option.splits)
qed

theorem updateClusterRoleLabel_nil_Labels_witness:
  "Labels barePod = None \<and> MySQLClusterRolePrimary \<noteq> [] \<and>
   updateClusterRoleLabel barePod MySQLClusterRolePrimary exampleController
     = (Panics, exampleController) \<and>
   fst (updateClusterRoleLabel barePod [] exampleController) = Returns None"
  using updateClusterRoleLabel_nil_Labels [of barePod MySQLClusterRolePrimary exampleController]
  by (simp add: example_defs labeler_defs Let_def)

subsection \<open>Membership in the cluster\<close>




subsection \<open>Ingestion\<close>

text \<open>
  C6. \<open>EnqueueClusterStatus\<close> on a value that is not a cluster status returns the error
  of \<open>keyFunc\<close> and leaves the controller as it was: nothing is stored, nothing is
  enqueued. On a cluster status, when the store accepts it the result is nil, the calls
  made are \<^verbatim>\<open>store.Add\<close> and after it \<^verbatim>\<open>queue.Add\<close> of the cluster name, the store holds
  the status under that name, and the name is in the queue unless the queue is shutting
  down; when the store fails, the result is its error, wrapped, no call is recorded and
  the store and the queue are as they were.
\<close>

theorem EnqueueClusterStatus_order:
  "EnqueueClusterStatus (OtherObj t) clc =
     (Some (Errorf ''expected *innodb.ClusterStatus got %T'' [t]), clc) \<and>
   (fst (nextFault clc) = None \<longrightarrow>
      (\<exists>clc'. EnqueueClusterStatus (ClusterStatusObj status) clc = (None, clc') \<and>
         trace clc' = trace clc @ [StoreAdd (ClusterStatusObj status),
                                   QueueAdd (ClusterStatus.ClusterName status)] \<and>
         store clc' = (store clc)(ClusterStatus.ClusterName status \<mapsto> ClusterStatusObj status) \<and>
         queue clc' =
           (if shuttingDown clc \<or> ClusterStatus.ClusterName status \<in> set (queue clc)
            then queue clc else queue clc @ [ClusterStatus.ClusterName status]))) \<and>
   (\<forall>err. fst (nextFault clc) = Some err \<longrightarrow>
      (\<exists>clc'. EnqueueClusterStatus (ClusterStatusObj status) clc =
                 (Some (Wrap err ''adding cluster status to store''), clc') \<and>
         trace clc' = trace clc \<and> store clc' = store clc \<and> queue clc' = queue clc))"
  by (auto simp: EnqueueClusterStatus_def keyFunc_def store_Add_def queue_Add_def emit_def
        nextFault_def split: list.splits option.splits prod.splits)

theorem EnqueueClusterStatus_order_witness:
  "fst (nextFault idleController) = None \<and>
   fst (EnqueueClusterStatus (ClusterStatusObj exampleStatus) idleController) = None \<and>
   trace (snd (EnqueueClusterStatus (ClusterStatusObj exampleStatus) idleController)) =
     [StoreAdd (ClusterStatusObj exampleStatus), QueueAdd ''mysql''] \<and>
   store (snd (EnqueueClusterStatus (ClusterStatusObj exampleStatus) idleController)) ''mysql'' =
     Some (ClusterStatusObj exampleStatus) \<and>
   queue (snd (EnqueueClusterStatus (ClusterStatusObj exampleStatus) idleController)) = [''mysql''] \<and>
   fst (nextFault failingStoreController) = Some (ApiError ''store closed'') \<and>
   fst (EnqueueClusterStatus (ClusterStatusObj exampleStatus) failingStoreController) =
     Some (Wrap (ApiError ''store closed'') ''adding cluster status to store'') \<and>
   trace (snd (EnqueueClusterStatus (ClusterStatusObj exampleStatus) failingStoreController)) = [] \<and>
   queue (snd (EnqueueClusterStatus (ClusterStatusObj exampleStatus) failingStoreController)) = []"
  using EnqueueClusterStatus_order [of t idleController exampleStatus]
    EnqueueClusterStatus_order [of t failingStoreController exampleStatus]
  by (auto simp: idleController_def failingStoreController_def exampleController_def
        exampleStatus_def nextFault_def)

subsection \<open>A key without a snapshot\<close>

text \<open>
  C4. When the store has no object under the key (the lookup succeeds and reports that
  nothing exists), \<open>syncHandler\<close> returns nil; the only call it makes is
  \<^verbatim>\<open>HandleError\<close>, so no pod is patched and the pod objects are as they were. When that
  key is the next of the queue, \<open>processNextWorkItem\<close> makes the calls \<^verbatim>\<open>Get\<close>,
  \<^verbatim>\<open>HandleError\<close>, \<^verbatim>\<open>Forget\<close> and \<^verbatim>\<open>Done\<close> and no other: the key is forgotten and
  \<^verbatim>\<open>AddRateLimited\<close> is not called.
\<close>

theorem syncHandler_stale_key:
  assumes "fst (store_GetByKey key clc) = Inr None"
  shows "(\<exists>clc'. syncHandler clusterLabel key clc = (Returns None, clc') \<and>
            trace clc' = trace clc @ [HandleError (Errorf ''key %q in work queue no longer exists'' [key])] \<and>
            pods clc' = pods clc) \<and>
         (hd (queue clc) = key \<and> queue clc \<noteq> [] \<longrightarrow>
            (\<exists>clc'. processNextWorkItem clusterLabel clc = (Returns True, clc') \<and>
               trace clc' = trace clc @
                 [QueueGet, HandleError (Errorf ''key %q in work queue no longer exists'' [key]),
                  QueueForget key, QueueDone key] \<and>
               pods clc' = pods clc))"
  using assms
  by (auto simp: syncHandler_def processNextWorkItem_def queue_Get_def store_GetByKey_def
        nextFault_def emit_def split: list.splits option.splits prod.splits)

theorem syncHandler_stale_key_witness:
  "fst (store_GetByKey ''other'' exampleController) = Inr None \<and>
   fst (syncHandler exampleClusterLabel ''other'' exampleController) = Returns None \<and>
   fst (processNextWorkItem exampleClusterLabel (exampleController\<lparr>queue := [''other'']\<rparr>)) = Returns True \<and>
   trace (snd (processNextWorkItem exampleClusterLabel (exampleController\<lparr>queue := [''other'']\<rparr>))) =
     [QueueGet, HandleError (Errorf ''key %q in work queue no longer exists'' [''other'']),
      QueueForget ''other'', QueueDone ''other'']"
  using syncHandler_stale_key [of "''other''" "exampleController\<lparr>queue := [''other'']\<rparr>" exampleClusterLabel]
    syncHandler_stale_key [of "''other''" exampleController exampleClusterLabel]
  by (simp add: example_defs store_GetByKey_def nextFault_def syncHandler_def emit_def
        processNextWorkItem_def queue_Get_def)

subsection \<open>What a pass does\<close>

lemma updateAll_sameController:
  "updateAll status ps clc = (r, clc') \<Longrightarrow> sameController clc clc'"
proof (induction ps arbitrary: clc)
  case Nil
  then show ?case by simp
next
  case (Cons p ps)
  obtain r1 clc1 where u: "updateClusterRoleLabel p (roleFor status (localInstance clc) p) clc = (r1, clc1)"
    by (cases "updateClusterRoleLabel p (roleFor status (localInstance clc) p) clc")
  from updateClusterRoleLabel_cases [OF u] have s: "sameController clc clc1"
    by auto
  show ?case
  proof (cases r1)
    case (Returns out)
    show ?thesis
    proof (cases out)
      case None
      with Returns u Cons.prems have "updateAll status ps clc1 = (r, clc')"
        by simp
      from Cons.IH [OF this] s show ?thesis
        by (rule sameController_trans [rotated])
    next
      case (Some e)
      with Returns u Cons.prems s show ?thesis by simp
    qed
  next
    case Panics
    with u Cons.prems s show ?thesis by simp
  next
    case Blocks
    with u Cons.prems s show ?thesis by simp
  qed
qed

lemma relabelPrimaries_updateAll:
  "relabelPrimaries status ps b clc =
     (case updateAll status (filter (\<lambda>p. Pod.Name p \<noteq> Instance.Name (localInstance clc)) ps) clc of
        (Returns None, clc') \<Rightarrow>
          (Returns (Inr (b \<or> (\<exists>p\<in>set ps. Pod.Name p = Instance.Name (localInstance clc)))), clc')
      | (Returns (Some (err, pod)), clc') \<Rightarrow> (Returns (Inl (Wrap err ''relabeling primary'')), clc')
      | (Panics, clc') \<Rightarrow> (Panics, clc')
      | (Blocks, clc') \<Rightarrow> (Blocks, clc'))"
proof (induction ps arbitrary: b clc)
  case Nil
  then show ?case by simp
next
  case (Cons p ps)
  show ?case
  proof (cases "Pod.Name p = Instance.Name (localInstance clc)")
    case True
    then show ?thesis
      using Cons.IH [of True clc]
      by (auto split: prod.splits outcome.splits option.splits)
  next
    case False
    obtain r1 clc1 where u: "updateClusterRoleLabel p (roleFor status (localInstance clc) p) clc = (r1, clc1)"
      by (cases "updateClusterRoleLabel p (roleFor status (localInstance clc) p) clc")
    from updateClusterRoleLabel_cases [OF u] have li: "localInstance clc1 = localInstance clc"
      by (auto simp: sameController_def)
    from u have u': "updateClusterRoleLabel p
        (if \<not> inCluster status (Sprintf_s_d (Pod.Name p) (Port (localInstance clc))) then []
         else MySQLClusterRoleSecondary) clc = (r1, clc1)"
      by (simp add: roleFor_def)
    show ?thesis
      using False u u' li Cons.IH [of b clc1]
      by (auto split: prod.splits outcome.splits option.splits)
  qed
qed


lemma stepsTo_refl [simp]: "stepsTo clc [] clc"
  by (simp add: stepsTo_def)

lemma stepsTo_trans:
  "stepsTo a xs b \<Longrightarrow> stepsTo b ys c \<Longrightarrow> stepsTo a (xs @ ys) c"
  by (simp add: stepsTo_def sameController_def)

lemma stepsTo_local: "stepsTo clc evs clc' \<Longrightarrow> localInstance clc' = localInstance clc"
  by (simp add: stepsTo_def sameController_def)

lemma stepsTo_store: "stepsTo clc evs clc' \<Longrightarrow> store clc' = store clc"
  by (simp add: stepsTo_def sameController_def)

lemma noFailure_simps [simp]:
  "noFailure []"
  "noFailure (ev # evs) = (\<not> failedPatch ev \<and> noFailure evs)"
  "noFailure (xs @ ys) = (noFailure xs \<and> noFailure ys)"
  by (simp_all add: noFailure_def)

lemma noFailure_patched [simp]: "noFailure (map (patched status li) ps)"
  by (induction ps) (simp_all add: patched_def)

lemma patchedPods_patched [simp]: "patchedPods (map (patched status li) ps) = ps"
  by (induction ps) (simp_all add: patched_def)

lemma update_steps:
  assumes "updateClusterRoleLabel pod val clc = (Returns out, clc')"
  shows "stepsTo clc [PatchPod pod (roleCopy pod val) out] clc'"
  using updateClusterRoleLabel_cases [OF assms]
  by (cases out) (auto simp: stepsTo_def)

lemma update_Panics:
  assumes "updateClusterRoleLabel pod val clc = (Panics, clc')"
  shows "clc' = clc"
  using updateClusterRoleLabel_cases [OF assms] by auto

lemma update_Blocks: "updateClusterRoleLabel pod val clc \<noteq> (Blocks, clc')"
  using updateClusterRoleLabel_cases [of pod val clc Blocks clc'] by auto

lemma updateAll_Blocks: "updateAll status ps clc \<noteq> (Blocks, clc')"
proof (induction ps arbitrary: clc)
  case Nil
  show ?case by simp
next
  case (Cons p ps)
  show ?case
    using Cons.IH update_Blocks
    by (auto split: prod.splits outcome.splits option.splits)
qed

lemma updateAll_steps:
  "updateAll status ps clc = (r, clc') \<Longrightarrow>
     \<exists>pre rest. ps = pre @ rest \<and>
        stepsTo clc (map (patched status (localInstance clc)) pre @
                     failureEvent status (localInstance clc) r) clc' \<and>
        (r = Returns None \<longrightarrow> rest = []) \<and>
        (\<forall>err pod. r = Returns (Some (err, pod)) \<longrightarrow> (\<exists>rest'. rest = pod # rest'))"
proof (induction ps arbitrary: clc)
  case Nil
  then have "r = Returns None" "clc' = clc" by simp_all
  then show ?case by simp
next
  case (Cons p ps)
  let ?li = "localInstance clc"
  obtain r1 clc1 where u: "updateClusterRoleLabel p (roleFor status ?li p) clc = (r1, clc1)"
    by (cases "updateClusterRoleLabel p (roleFor status ?li p) clc")
  show ?case
  proof (cases r1)
    case (Returns out)
    from update_steps [OF u [unfolded Returns]]
    have st: "stepsTo clc [PatchPod p (relabeled status ?li p) out] clc1"
      by (simp add: relabeled_def)
    show ?thesis
    proof (cases out)
      case None
      with Returns u Cons.prems have run: "updateAll status ps clc1 = (r, clc')"
        by simp
      have li: "localInstance clc1 = ?li"
        using st by (rule stepsTo_local)
      from Cons.IH [OF run, unfolded li] obtain pre rest where
        ps: "ps = pre @ rest" and
        steps: "stepsTo clc1 (map (patched status ?li) pre @ failureEvent status ?li r) clc'" and
        rest: "r = Returns None \<longrightarrow> rest = []"
          "\<forall>err pod. r = Returns (Some (err, pod)) \<longrightarrow> (\<exists>rest'. rest = pod # rest')"
        by (elim exE conjE) (rule that, assumption+)
      from stepsTo_trans [OF st steps] None
      have a: "stepsTo clc (map (patched status ?li) (p # pre) @ failureEvent status ?li r) clc'"
        by (simp add: patched_def)
      have b: "p # ps = (p # pre) @ rest"
        using ps by simp
      show ?thesis
        apply (rule exI [of _ "p # pre"])
        apply (rule exI [of _ rest])
        using a b rest apply (intro conjI)
           apply assumption+
        done
    next
      case (Some e)
      with Returns u Cons.prems have r: "r = Returns (Some (e, p))" "clc' = clc1"
        by simp_all
      have "stepsTo clc (map (patched status ?li) [] @ failureEvent status ?li r) clc'"
        using st Some r by simp
      then show ?thesis
        apply (rule_tac x = "[]" in exI)
        apply (rule_tac x = "p # ps" in exI)
        using r apply simp
        done
    qed
  next
    case Panics
    with u Cons.prems update_Panics [of p "roleFor status ?li p" clc clc1]
    have r: "r = Panics" "clc' = clc"
      by simp_all
    show ?thesis
      apply (rule exI [of _ "[]"])
      apply (rule exI [of _ "p # ps"])
      using r apply simp
      done
  next
    case Blocks
    with u show ?thesis by (simp add: update_Blocks)
  qed
qed

lemma labelNonPrimaries_updateAll:
  "labelNonPrimaries clusterLabel status ps clc =
     (case updateAll status (filter (needsUpdate clusterLabel status (localInstance clc)) ps) clc of
        (Returns None, clc') \<Rightarrow> (Returns None, clc')
      | (Returns (Some (err, pod)), clc') \<Rightarrow>
          (Returns (Some
             (if \<not> inCluster status (Sprintf_s_d (Pod.Name pod) (Port (localInstance clc)))
              then Wrapf err ''removing %q label from %s/%s''
                     [LabelMySQLClusterRole, Pod.Namespace pod, Pod.Name pod]
              else Wrapf err ''labeling %s/%s as secondary'' [Pod.Namespace pod, Pod.Name pod])),
           clc')
      | (Panics, clc') \<Rightarrow> (Panics, clc')
      | (Blocks, clc') \<Rightarrow> (Blocks, clc'))"
proof (induction ps arbitrary: clc)
  case Nil
  then show ?case by simp
next
  case (Cons p ps)
  let ?li = "localInstance clc"
  show ?case
  proof (cases "needsUpdate clusterLabel status ?li p")
    case False
    then have "labelNonPrimaries clusterLabel status (p # ps) clc =
        labelNonPrimaries clusterLabel status ps clc"
      by (auto simp: needsUpdate_def)
    with False show ?thesis
      using Cons.IH [of clc] by simp
  next
    case True
    obtain r1 clc1 where u: "updateClusterRoleLabel p (roleFor status ?li p) clc = (r1, clc1)"
      by (cases "updateClusterRoleLabel p (roleFor status ?li p) clc")
    from updateClusterRoleLabel_cases [OF u] have li: "localInstance clc1 = ?li"
      by (auto simp: sameController_def)
    show ?thesis
    proof (cases "inCluster status (Sprintf_s_d (Pod.Name p) (Port ?li))")
      case in_cluster: True
      with u have u': "updateClusterRoleLabel p MySQLClusterRoleSecondary clc = (r1, clc1)"
        by (simp add: roleFor_def)
      have nm: "Pod.Name p \<noteq> Instance.Name ?li"
        "\<not> Matches (SecondarySelector clusterLabel (Instance.ClusterName ?li)) (labels_Set (Labels p))"
        using True in_cluster by (simp_all add: needsUpdate_def)
      show ?thesis
        using True in_cluster nm u u' li Cons.IH [of clc1, unfolded li]
        by (simp split: outcome.splits option.splits)
    next
      case out_cluster: False
      with u have u': "updateClusterRoleLabel p [] clc = (r1, clc1)"
        by (simp add: roleFor_def)
      have nm: "Matches (HasRoleSelector clusterLabel (Instance.ClusterName ?li)) (labels_Set (Labels p))"
        using True out_cluster by (simp add: needsUpdate_def)
      show ?thesis
        using True out_cluster nm u u' li Cons.IH [of clc1, unfolded li]
        by (simp split: outcome.splits option.splits)
    qed
  qed
qed



lemma applyPatch_same:
  "ident cur = ident old \<Longrightarrow> applyPatch old new cur = new"
  by (auto simp: applyPatch_def ident_def)


lemma nextFault_steps: "nextFault clc = (f, clc') \<Longrightarrow> stepsTo clc [] clc'"
  using nextFault_frame [of clc f clc'] by (simp add: stepsTo_def)

lemma store_GetByKey_cases:
  assumes "store_GetByKey key clc = (r, clc')"
  shows "stepsTo clc [] clc' \<and> ((\<exists>e. r = Inl e) \<or> r = Inr (store clc key))"
proof -
  obtain f clc1 where nf: "nextFault clc = (f, clc1)"
    by (cases "nextFault clc")
  from nextFault_steps [OF nf] have st: "stepsTo clc [] clc1" .
  then have "store clc1 = store clc" by (rule stepsTo_store)
  with nf st assms show ?thesis
    by (cases f) (auto simp: store_GetByKey_def)
qed

lemma podLister_List_cases:
  assumes "podLister_List namespace sel clc = (r, clc')"
  shows "stepsTo clc [] clc' \<and>
         ((\<exists>e. r = Inl e) \<or>
          r = Inr (filter (\<lambda>pod. Pod.Namespace pod = namespace \<and>
                        Matches sel (labels_Set (Labels pod))) (pods clc)))"
proof -
  obtain f clc1 where nf: "nextFault clc = (f, clc1)"
    by (cases "nextFault clc")
  from nextFault_steps [OF nf] have st: "stepsTo clc [] clc1" .
  then have "pods clc1 = pods clc" by (simp add: stepsTo_def)
  with nf st assms show ?thesis
    by (cases f) (auto simp: podLister_List_def)
qed

lemma podLister_Get_cases:
  assumes "podLister_Get namespace name clc = (r, clc')"
  shows "stepsTo clc [] clc' \<and>
         ((\<exists>e. r = Inl e) \<or>
          (\<exists>pod. r = Inr pod \<and>
             find (\<lambda>pod. Pod.Namespace pod = namespace \<and> Pod.Name pod = name) (pods clc) = Some pod))"
proof -
  obtain f clc1 where nf: "nextFault clc = (f, clc1)"
    by (cases "nextFault clc")
  from nextFault_steps [OF nf] have st: "stepsTo clc [] clc1" .
  then have "pods clc1 = pods clc" by (simp add: stepsTo_def)
  with nf st assms show ?thesis
    by (cases f) (auto simp: podLister_Get_def split: option.splits)
qed

lemma stepsTo_pods_Nil: "stepsTo clc [] clc' \<Longrightarrow> pods clc' = pods clc"
  by (simp add: stepsTo_def)

lemma relabelPrimaries_result:
  "relabelPrimaries status ps b clc =
     (case updateAll status (filter (\<lambda>p. Pod.Name p \<noteq> Instance.Name (localInstance clc)) ps) clc of
        (r1, clc') \<Rightarrow>
          (firstLoopResult (b \<or> (\<exists>p\<in>set ps. Pod.Name p = Instance.Name (localInstance clc))) r1, clc'))"
  by (simp add: relabelPrimaries_updateAll split: prod.splits outcome.splits option.splits)

lemma labelNonPrimaries_result:
  "labelNonPrimaries clusterLabel status ps clc =
     (case updateAll status (filter (needsUpdate clusterLabel status (localInstance clc)) ps) clc of
        (r3, clc') \<Rightarrow> (secondLoopResult status (localInstance clc) r3, clc'))"
  by (simp add: labelNonPrimaries_updateAll split: prod.splits outcome.splits option.splits)

lemma listedNonPrimary_eq:
  "(\<lambda>pod. Pod.Namespace pod = Instance.Namespace li \<and>
          Matches (NonPrimarySelector clusterLabel (Instance.ClusterName li)) (labels_Set (Labels pod)))
   = listedNonPrimary clusterLabel li"
  by (rule ext) (simp add: listedNonPrimary_def)

lemma listedPrimary_eq:
  "(\<lambda>pod. Pod.Namespace pod = Instance.Namespace li \<and>
          Matches (PrimarySelector clusterLabel (Instance.ClusterName li)) (labels_Set (Labels pod)))
   = listedPrimary clusterLabel li"
  by (rule ext) (simp add: listedPrimary_def)

lemma isLocal_eq:
  "(\<lambda>pod. Pod.Namespace pod = Instance.Namespace li \<and> Pod.Name pod = Instance.Name li) = isLocal li"
  by (rule ext) (simp add: isLocal_def)

text \<open>The second list call and the second loop.\<close>

lemma listAndLabel_cases:
  assumes "(case podLister_List (Instance.Namespace (localInstance clc))
                  (NonPrimarySelector clusterLabel (Instance.ClusterName (localInstance clc))) clc of
             (Inl err, clc4) \<Rightarrow> (Returns (Some (Wrap err ''failed to list non-primary Cluster pods'')), clc4)
           | (Inr nonPrimaries, clc4) \<Rightarrow> labelNonPrimaries clusterLabel status nonPrimaries clc4)
           = (r, clc')"
  shows "(\<exists>e. r = Returns (Some (Wrap e ''failed to list non-primary Cluster pods'')) \<and>
            stepsTo clc [] clc') \<or>
         (\<exists>clc4 r3. stepsTo clc [] clc4 \<and>
            updateAll status
              (filter (\<lambda>q. listedNonPrimary clusterLabel (localInstance clc) q \<and>
                           needsUpdate clusterLabel status (localInstance clc) q) (pods clc)) clc4
              = (r3, clc') \<and>
            r = secondLoopResult status (localInstance clc) r3)"
proof -
  let ?li = "localInstance clc"
  obtain r4 clc4 where ls: "podLister_List (Instance.Namespace ?li)
      (NonPrimarySelector clusterLabel (Instance.ClusterName ?li)) clc = (r4, clc4)"
    by (cases "podLister_List (Instance.Namespace ?li)
      (NonPrimarySelector clusterLabel (Instance.ClusterName ?li)) clc")
  note lc = podLister_List_cases [OF ls]
  then have st4: "stepsTo clc [] clc4" by simp
  show ?thesis
  proof (cases r4)
    case (Inl e)
    with assms ls have "r = Returns (Some (Wrap e ''failed to list non-primary Cluster pods''))"
      "clc' = clc4"
      by simp_all
    with st4 show ?thesis by simp
  next
    case (Inr ps)
    with lc have ps: "ps = filter (listedNonPrimary clusterLabel ?li) (pods clc)"
      by (simp add: listedNonPrimary_eq)
    from assms ls Inr have run: "labelNonPrimaries clusterLabel status ps clc4 = (r, clc')"
      by simp
    have li4: "localInstance clc4 = ?li"
      using st4 by (rule stepsTo_local)
    obtain r3 clc5 where
      u: "updateAll status (filter (needsUpdate clusterLabel status ?li) ps) clc4 = (r3, clc5)"
      by (cases "updateAll status (filter (needsUpdate clusterLabel status ?li) ps) clc4")
    with run li4 have r: "r = secondLoopResult status ?li r3" "clc' = clc5"
      by (simp_all add: labelNonPrimaries_result)
    from u ps r have "updateAll status
       (filter (\<lambda>q. listedNonPrimary clusterLabel ?li q \<and> needsUpdate clusterLabel status ?li q)
          (pods clc)) clc4 = (r3, clc')"
      by simp
    with st4 r show ?thesis by blast
  qed
qed

lemma updateAll_loopRun:
  assumes "updateAll status ps clc = (r, clc')"
  shows "\<exists>evs. stepsTo clc evs clc' \<and> loopRun status (localInstance clc) ps evs r"
proof -
  from updateAll_steps [OF assms] obtain pre rest where
    "ps = pre @ rest"
    "stepsTo clc (map (patched status (localInstance clc)) pre @
                  failureEvent status (localInstance clc) r) clc'"
    "r = Returns None \<longrightarrow> rest = []"
    "\<forall>err pod. r = Returns (Some (err, pod)) \<longrightarrow> (\<exists>rest'. rest = pod # rest')"
    by (elim exE conjE) (rule that, assumption+)
  moreover have "r \<noteq> Blocks"
    using assms updateAll_Blocks by blast
  ultimately show ?thesis
    unfolding loopRun_def by blast
qed

lemma restRun_refines:
  assumes "(case podLister_List (Instance.Namespace (localInstance clc))
                  (NonPrimarySelector clusterLabel (Instance.ClusterName (localInstance clc))) clc of
             (Inl err, clc4) \<Rightarrow> (Returns (Some (Wrap err ''failed to list non-primary Cluster pods'')), clc4)
           | (Inr nonPrimaries, clc4) \<Rightarrow> labelNonPrimaries clusterLabel status nonPrimaries clc4)
           = (r, clc')"
  shows "\<exists>evs. stepsTo clc evs clc' \<and> restRun clusterLabel status (localInstance clc) (pods clc) evs r"
proof -
  let ?li = "localInstance clc"
  let ?ps = "filter (\<lambda>q. listedNonPrimary clusterLabel ?li q \<and> needsUpdate clusterLabel status ?li q) (pods clc)"
  from listAndLabel_cases [OF assms] show ?thesis
  proof (elim disjE exE conjE)
    fix e
    assume "r = Returns (Some (Wrap e ''failed to list non-primary Cluster pods''))" "stepsTo clc [] clc'"
    then show ?thesis
      unfolding restRun_def by blast
  next
    fix clc4 r3
    assume st: "stepsTo clc [] clc4" and u: "updateAll status ?ps clc4 = (r3, clc')" and
      r: "r = secondLoopResult status ?li r3"
    have li4: "localInstance clc4 = ?li"
      using st by (rule stepsTo_local)
    from updateAll_loopRun [OF u] li4 obtain evs where
      evs: "stepsTo clc4 evs clc'" "loopRun status ?li ?ps evs r3"
      by auto
    from stepsTo_trans [OF st evs(1)] have "stepsTo clc evs clc'"
      by simp
    with evs(2) r show ?thesis
      unfolding restRun_def by blast
  qed
qed

lemma localRun_refines:
  assumes "(if \<not> b then
              (case podLister_Get (Instance.Namespace (localInstance clc))
                      (Instance.Name (localInstance clc)) clc of
                 (Inl err, clc1) \<Rightarrow> (Returns (Some (Wrap err ''failed to get primary Pod'')), clc1)
               | (Inr primary, clc1) \<Rightarrow>
                   (case updateClusterRoleLabel primary MySQLClusterRolePrimary clc1 of
                      (Returns (Some err), clc2) \<Rightarrow>
                        (Returns (Some (Wrapf err ''labeling %s/%s as primary''
                           [Pod.Namespace primary, Pod.Name primary])), clc2)
                    | other \<Rightarrow> other))
            else (Returns None, clc)) = (rl, clc3)"
  shows "\<exists>evs. stepsTo clc evs clc3 \<and> localRun b (localInstance clc) (pods clc) evs rl"
proof (cases b)
  case True
  with assms have "rl = Returns None" "clc3 = clc"
    by simp_all
  with True show ?thesis
    by (auto simp: localRun_def)
next
  case False
  let ?li = "localInstance clc"
  obtain rg clc1 where g: "podLister_Get (Instance.Namespace ?li) (Instance.Name ?li) clc = (rg, clc1)"
    by (cases "podLister_Get (Instance.Namespace ?li) (Instance.Name ?li) clc")
  note gc = podLister_Get_cases [OF g]
  then have st1: "stepsTo clc [] clc1" by simp
  show ?thesis
  proof (cases rg)
    case (Inl e)
    with assms False g have "rl = Returns (Some (Wrap e ''failed to get primary Pod''))" "clc3 = clc1"
      by simp_all
    with False st1 show ?thesis
      by (auto simp: localRun_def)
  next
    case (Inr p)
    with gc have found: "find (isLocal ?li) (pods clc) = Some p"
      by (simp add: isLocal_eq)
    obtain ru clc2 where u: "updateClusterRoleLabel p MySQLClusterRolePrimary clc1 = (ru, clc2)"
      by (cases "updateClusterRoleLabel p MySQLClusterRolePrimary clc1")
    from assms False g Inr u have res: "rl = localResult p ru" "clc3 = clc2"
      by (auto split: outcome.splits option.splits)
    have nonempty: "MySQLClusterRolePrimary \<noteq> []"
      by (simp add: MySQLClusterRolePrimary_def)
    show ?thesis
    proof (cases ru)
      case (Returns out)
      from update_steps [OF u [unfolded Returns]]
      have st2: "stepsTo clc1 [PatchPod p (roleCopy p MySQLClusterRolePrimary) out] clc2" .
      from stepsTo_trans [OF st1 st2]
      have st: "stepsTo clc [PatchPod p (roleCopy p MySQLClusterRolePrimary) out] clc3"
        using res by simp
      from updateClusterRoleLabel_cases [OF u] Returns nonempty have "Labels p \<noteq> None"
        by auto
      with False found st res Returns show ?thesis
        unfolding localRun_def by auto
    next
      case Panics
      from updateClusterRoleLabel_cases [OF u] Panics have "Labels p = None" "clc2 = clc1"
        by auto
      with False found st1 res Panics show ?thesis
        unfolding localRun_def by auto
    next
      case Blocks
      with u show ?thesis by (simp add: update_Blocks)
    qed
  qed
qed

lemma afterLoopRun_refines:
  assumes run: "labelLocalAndRest clusterLabel status b clc = (r, clc')"
  shows "\<exists>evs. stepsTo clc evs clc' \<and>
           afterLoopRun clusterLabel status (localInstance clc) b (pods clc) evs r"
proof -
  let ?li = "localInstance clc"
  let ?local = "(if \<not> b then
              (case podLister_Get (Instance.Namespace ?li) (Instance.Name ?li) clc of
                 (Inl err, clc1) \<Rightarrow> (Returns (Some (Wrap err ''failed to get primary Pod'')), clc1)
               | (Inr primary, clc1) \<Rightarrow>
                   (case updateClusterRoleLabel primary MySQLClusterRolePrimary clc1 of
                      (Returns (Some err), clc2) \<Rightarrow>
                        (Returns (Some (Wrapf err ''labeling %s/%s as primary''
                           [Pod.Namespace primary, Pod.Name primary])), clc2)
                    | other \<Rightarrow> other))
            else (Returns None, clc))"
  obtain rl clc3 where l: "?local = (rl, clc3)"
    by (cases ?local)
  from localRun_refines [OF l] obtain evs2 where
    st2: "stepsTo clc evs2 clc3" and lr: "localRun b ?li (pods clc) evs2 rl"
    by auto
  have li3: "localInstance clc3 = ?li"
    using st2 by (rule stepsTo_local)
  have pods3: "pods clc3 = fold applyEvent evs2 (pods clc)"
    using st2 by (simp add: stepsTo_def)
  show ?thesis
  proof (cases "rl = Returns None")
    case True
    from run have "(case podLister_List (Instance.Namespace (localInstance clc3))
                  (NonPrimarySelector clusterLabel (Instance.ClusterName (localInstance clc3))) clc3 of
             (Inl err, clc4) \<Rightarrow> (Returns (Some (Wrap err ''failed to list non-primary Cluster pods'')), clc4)
           | (Inr nonPrimaries, clc4) \<Rightarrow> labelNonPrimaries clusterLabel status nonPrimaries clc4)
           = (r, clc')"
      unfolding labelLocalAndRest_def l using True by simp
    from restRun_refines [OF this] li3 pods3 obtain evs3 where
      st3: "stepsTo clc3 evs3 clc'" and
      rr: "restRun clusterLabel status ?li (fold applyEvent evs2 (pods clc)) evs3 r"
      by auto
    from stepsTo_trans [OF st2 st3] lr rr True show ?thesis
      unfolding afterLoopRun_def by auto
  next
    case False
    from run have "(r, clc') = (rl, clc3)"
      unfolding labelLocalAndRest_def l using False
      by (auto split: outcome.splits option.splits)
    with st2 lr False show ?thesis
      unfolding afterLoopRun_def by auto
  qed
qed

lemma passRun_done:
  assumes "loopRun status li
             (filter (\<lambda>q. listedPrimary clusterLabel li q \<and> Pod.Name q \<noteq> Instance.Name li) ps)
             evs1 (Returns None)"
    and "afterLoopRun clusterLabel status li
           (\<exists>q\<in>set ps. listedPrimary clusterLabel li q \<and> Pod.Name q = Instance.Name li)
           (fold applyEvent evs1 ps) evs' r"
  shows "passRun clusterLabel status li ps (evs1 @ evs') r"
  unfolding passRun_def
  apply (rule disjI2)
  apply (rule exI [of _ evs1])
  apply (rule exI [of _ "Returns None"])
  using assms apply simp
  done

lemma passRun_stopped:
  assumes "loopRun status li
             (filter (\<lambda>q. listedPrimary clusterLabel li q \<and> Pod.Name q \<noteq> Instance.Name li) ps)
             evs1 r1"
    and "r1 \<noteq> Returns None"
  shows "passRun clusterLabel status li ps evs1 (firstLoopError r1)"
  unfolding passRun_def
  apply (rule disjI2)
  apply (rule exI [of _ evs1])
  apply (rule exI [of _ r1])
  using assms apply simp
  done

lemma syncHandler_runs:
  assumes run: "syncHandler clusterLabel key clc = (r, clc')"
  shows "\<exists>evs. stepsTo clc evs clc' \<and>
           ((\<exists>err msg args. evs = [] \<and> r = Returns (Some (Wrapf err msg args))) \<or>
            (store clc key = None \<and> r = Returns None \<and>
               evs = [HandleError (Errorf ''key %q in work queue no longer exists'' [key])]) \<or>
            (\<exists>t. store clc key = Some (OtherObj t) \<and> r = Panics \<and> evs = []) \<or>
            (\<exists>status. store clc key = Some (ClusterStatusObj status) \<and>
               passRun clusterLabel status (localInstance clc) (pods clc) evs r))"
proof -
  let ?li = "localInstance clc"
  obtain rg clc1 where g: "store_GetByKey key clc = (rg, clc1)"
    by (cases "store_GetByKey key clc")
  note gc = store_GetByKey_cases [OF g]
  then have st1: "stepsTo clc [] clc1" by simp
  have li1: "localInstance clc1 = ?li"
    using st1 by (rule stepsTo_local)
  have pods1: "pods clc1 = pods clc"
    using st1 by (rule stepsTo_pods_Nil)
  show ?thesis
  proof (cases rg)
    case (Inl e)
    with run g have "r = Returns (Some (Wrapf e ''getting key %q out of store'' [key]))" "clc' = clc1"
      by (simp_all add: syncHandler_def)
    with st1 show ?thesis by blast
  next
    case (Inr obj)
    with gc have obj: "obj = store clc key" by simp
    show ?thesis
    proof (cases obj)
      case None
      with run g Inr have r: "r = Returns None"
        "clc' = emit (HandleError (Errorf ''key %q in work queue no longer exists'' [key])) clc1"
        by (simp_all add: syncHandler_def)
      have "stepsTo clc1 [HandleError (Errorf ''key %q in work queue no longer exists'' [key])] clc'"
        using r by (simp add: stepsTo_def emit_def sameController_def)
      from stepsTo_trans [OF st1 this] r None obj show ?thesis
        by auto
    next
      case (Some o1)
      show ?thesis
      proof (cases o1)
        case (OtherObj t)
        with run g Inr Some have "r = Panics" "clc' = clc1"
          by (simp_all add: syncHandler_def)
        with st1 OtherObj Some obj show ?thesis by auto
      next
        case (ClusterStatusObj status)
        obtain r2 clc2 where ls: "podLister_List (Instance.Namespace ?li)
            (PrimarySelector clusterLabel (Instance.ClusterName ?li)) clc1 = (r2, clc2)"
          by (cases "podLister_List (Instance.Namespace ?li)
            (PrimarySelector clusterLabel (Instance.ClusterName ?li)) clc1")
        note lc = podLister_List_cases [OF ls]
        then have st2: "stepsTo clc1 [] clc2" by simp
        from stepsTo_trans [OF st1 st2] have st12: "stepsTo clc [] clc2" by simp
        have li2: "localInstance clc2 = ?li"
          using st12 by (rule stepsTo_local)
        have pods2: "pods clc2 = pods clc"
          using st12 by (rule stepsTo_pods_Nil)
        have snap: "store clc key = Some (ClusterStatusObj status)"
          using obj Some ClusterStatusObj by simp
        show ?thesis
        proof (cases r2)
          case (Inl e)
          with run g Inr Some ClusterStatusObj ls li1
          have "r = Returns (Some (Wrap e ''failed to list primaries''))" "clc' = clc2"
            by (simp_all add: syncHandler_def)
          with st12 snap show ?thesis
            unfolding passRun_def by blast
        next
          case ps: (Inr ps)
          with lc pods1 have ps_eq: "ps = filter (listedPrimary clusterLabel ?li) (pods clc)"
            by (simp add: listedPrimary_eq)
          let ?qs = "filter (\<lambda>q. listedPrimary clusterLabel ?li q \<and> Pod.Name q \<noteq> Instance.Name ?li) (pods clc)"
          let ?b = "\<exists>q\<in>set (pods clc). listedPrimary clusterLabel ?li q \<and> Pod.Name q = Instance.Name ?li"
          obtain r1 clc3 where u: "updateAll status ?qs clc2 = (r1, clc3)"
            by (cases "updateAll status ?qs clc2")
          have loop: "relabelPrimaries status ps False clc2 = (firstLoopResult ?b r1, clc3)"
            using u li2 by (simp add: relabelPrimaries_result ps_eq Bex_def)
          from updateAll_loopRun [OF u] li2 obtain evs1 where
            st3: "stepsTo clc2 evs1 clc3" and lr: "loopRun status ?li ?qs evs1 r1"
            by auto
          from stepsTo_trans [OF st12 st3] have st13: "stepsTo clc evs1 clc3" by simp
          have sync: "syncHandler clusterLabel key clc =
            (case (firstLoopResult ?b r1, clc3) of
               (Returns (Inl err), clc3) \<Rightarrow> (Returns (Some err), clc3)
             | (Returns (Inr primaryLabeled), clc3) \<Rightarrow>
                 labelLocalAndRest clusterLabel status primaryLabeled clc3
             | (Panics, clc3) \<Rightarrow> (Panics, clc3)
             | (Blocks, clc3) \<Rightarrow> (Blocks, clc3))"
            using g Inr Some ClusterStatusObj ls ps li1 loop
            by (simp add: syncHandler_def)
          show ?thesis
          proof (cases "r1 = Returns None")
            case True
            with sync run have "labelLocalAndRest clusterLabel status ?b clc3 = (r, clc')"
              by simp
            from afterLoopRun_refines [OF this] obtain evs' where
              st4: "stepsTo clc3 evs' clc'" and
              ar: "afterLoopRun clusterLabel status (localInstance clc3) ?b (pods clc3) evs' r"
              by auto
            have "localInstance clc3 = ?li" "pods clc3 = fold applyEvent evs1 (pods clc)"
              using st13 by (simp_all add: stepsTo_def sameController_def)
            with ar have ar': "afterLoopRun clusterLabel status ?li ?b (fold applyEvent evs1 (pods clc)) evs' r"
              by simp
            from stepsTo_trans [OF st13 st4] have "stepsTo clc (evs1 @ evs') clc'" .
            moreover have "passRun clusterLabel status ?li (pods clc) (evs1 @ evs') r"
              using lr ar' True by (simp add: passRun_done)
            ultimately show ?thesis
              using snap by blast
          next
            case False
            have "(r, clc') = (firstLoopError r1, clc3)"
              using sync run False by (cases r1 rule: firstLoopError.cases) auto
            then have "passRun clusterLabel status ?li (pods clc) evs1 r" "clc' = clc3"
              using lr False by (simp_all add: passRun_stopped)
            with st13 snap show ?thesis by blast
          qed
        qed
      qed
    qed
  qed
qed

lemma loopRun_cases:
  assumes "loopRun status li qs evs r"
  shows "((r = Returns None \<or> r = Panics) \<and>
          (\<exists>pre rest. qs = pre @ rest \<and> evs = map (patched status li) pre \<and>
             (r = Returns None \<longrightarrow> rest = []))) \<or>
         (\<exists>e p pre rest. r = Returns (Some (e, p)) \<and> qs = pre @ p # rest \<and>
            evs = map (patched status li) pre @ [PatchPod p (relabeled status li p) (Some e)])"
proof (cases r)
  case (Returns out)
  show ?thesis
  proof (cases out)
    case None
    with Returns assms show ?thesis
      unfolding loopRun_def by auto
  next
    case (Some ep)
    obtain e p where "ep = (e, p)" by (cases ep)
    with Some Returns assms show ?thesis
      unfolding loopRun_def by auto
  qed
next
  case Panics
  with assms show ?thesis
    unfolding loopRun_def by auto
next
  case Blocks
  with assms show ?thesis
    unfolding loopRun_def by auto
qed

lemma passShape_noFailure: "noFailure evs \<Longrightarrow> passShape evs r"
  by (simp add: passShape_def)

lemma passShape_failed:
  "noFailure evs0 \<Longrightarrow> wrapsOnce cause wrapped \<Longrightarrow>
     passShape (evs0 @ [PatchPod old new (Some cause)]) (Returns (Some wrapped))"
  unfolding passShape_def by blast

lemma passShape_prepend:
  assumes "noFailure xs" "passShape ys r"
  shows "passShape (xs @ ys) r"
proof -
  from assms(2) consider "noFailure ys" |
    evs0 old new cause wrapped where "ys = evs0 @ [PatchPod old new (Some cause)]" "noFailure evs0"
      "r = Returns (Some wrapped)" "wrapsOnce cause wrapped"
    unfolding passShape_def by blast
  then show ?thesis
  proof cases
    case 1
    with assms(1) show ?thesis by (simp add: passShape_noFailure)
  next
    case 2
    then have "xs @ ys = (xs @ evs0) @ [PatchPod old new (Some cause)]" "noFailure (xs @ evs0)"
      using assms(1) by simp_all
    with 2 show ?thesis
      using passShape_failed [of "xs @ evs0" cause wrapped old new] by simp
  qed
qed

lemma loopRun_first_shape:
  assumes "loopRun status li qs evs r"
  shows "passShape evs (firstLoopError r)"
  using loopRun_cases [OF assms]
  by (elim disjE exE conjE) (auto intro: passShape_noFailure passShape_failed)

lemma loopRun_second_shape:
  assumes "loopRun status li qs evs r"
  shows "passShape evs (secondLoopResult status li' r)"
  using loopRun_cases [OF assms]
  by (elim disjE exE conjE) (auto intro: passShape_noFailure passShape_failed)

lemma loopRun_done: "loopRun status li qs evs (Returns None) \<Longrightarrow> evs = map (patched status li) qs"
  unfolding loopRun_def by auto

lemma restRun_shape:
  assumes "restRun clusterLabel status li ps evs r"
  shows "passShape evs r"
  using assms unfolding restRun_def
  by (auto intro: passShape_noFailure loopRun_second_shape)

lemma localRun_cases:
  assumes "localRun b li ps evs r"
  shows "(evs = [] \<and> (b \<and> r = Returns None \<or> \<not> b \<and> r \<noteq> Returns None)) \<or>
         (\<exists>p out. \<not> b \<and> find (isLocal li) ps = Some p \<and> Labels p \<noteq> None \<and>
            evs = [PatchPod p (roleCopy p MySQLClusterRolePrimary) out] \<and>
            r = localResult p (Returns out))"
  using assms unfolding localRun_def
  by (auto split: if_splits)

lemma localRun_shape:
  assumes "localRun b li ps evs r"
  shows "passShape evs r" "r = Returns None \<Longrightarrow> noFailure evs"
proof -
  note c = localRun_cases [OF assms]
  show "passShape evs r"
    using c
  proof (elim disjE exE conjE)
    fix p out
    assume "evs = [PatchPod p (roleCopy p MySQLClusterRolePrimary) out]" "r = localResult p (Returns out)"
    then show ?thesis
      using passShape_failed [of "[]"]
      by (cases out) (auto intro: passShape_noFailure)
  qed (auto intro: passShape_noFailure)
  show "noFailure evs" if "r = Returns None"
    using c that
    by (elim disjE exE conjE) (auto elim: localResult.elims)
qed

lemma afterLoopRun_shape:
  assumes "afterLoopRun clusterLabel status li b ps evs r"
  shows "passShape evs r"
proof -
  from assms obtain evs2 rl where
    lr: "localRun b li ps evs2 rl" and
    rest: "if rl = Returns None
           then \<exists>evs3. restRun clusterLabel status li (fold applyEvent evs2 ps) evs3 r \<and> evs = evs2 @ evs3
           else evs = evs2 \<and> r = rl"
    unfolding afterLoopRun_def by blast
  show ?thesis
  proof (cases "rl = Returns None")
    case True
    with rest obtain evs3 where
      "restRun clusterLabel status li (fold applyEvent evs2 ps) evs3 r" "evs = evs2 @ evs3"
      by auto
    with localRun_shape(2) [OF lr True] show ?thesis
      by (auto intro: passShape_prepend restRun_shape)
  next
    case False
    with rest localRun_shape(1) [OF lr] show ?thesis by simp
  qed
qed

lemma passRun_shape:
  assumes "passRun clusterLabel status li ps evs r"
  shows "passShape evs r"
  using assms unfolding passRun_def
proof (elim disjE exE conjE)
  fix evs1 r1
  assume lr: "loopRun status li
      (filter (\<lambda>q. listedPrimary clusterLabel li q \<and> Pod.Name q \<noteq> Instance.Name li) ps) evs1 r1"
    and rest: "if r1 = Returns None
       then \<exists>evs'. afterLoopRun clusterLabel status li
                     (\<exists>q\<in>set ps. listedPrimary clusterLabel li q \<and> Pod.Name q = Instance.Name li)
                     (fold applyEvent evs1 ps) evs' r \<and> evs = evs1 @ evs'
       else evs = evs1 \<and> r = firstLoopError r1"
  show ?thesis
  proof (cases "r1 = Returns None")
    case True
    with rest obtain evs' where
      ar: "afterLoopRun clusterLabel status li
             (\<exists>q\<in>set ps. listedPrimary clusterLabel li q \<and> Pod.Name q = Instance.Name li)
             (fold applyEvent evs1 ps) evs' r" and evs: "evs = evs1 @ evs'"
      by auto
    from loopRun_done [OF lr [unfolded True]] have "noFailure evs1" by simp
    with afterLoopRun_shape [OF ar] evs show ?thesis
      by (simp add: passShape_prepend)
  next
    case False
    with rest loopRun_first_shape [OF lr] show ?thesis by simp
  qed
qed (auto intro: passShape_noFailure)

lemma passPatch_patched [simp]: "passPatch status li (patched status li p)"
  by (simp add: patched_def)

lemma loopRun_patches:
  assumes "loopRun status li qs evs r"
  shows "list_all (passPatch status li) evs"
  using loopRun_cases [OF assms]
  by (elim disjE exE conjE) (auto simp: list_all_iff)

lemma localRun_patches:
  assumes "localRun b li ps evs r"
  shows "list_all (passPatch status li) evs"
  using localRun_cases [OF assms]
  by (elim disjE exE conjE) auto

lemma restRun_patches:
  assumes "restRun clusterLabel status li ps evs r"
  shows "list_all (passPatch status li) evs"
  using assms unfolding restRun_def
  by (auto intro: loopRun_patches)

lemma afterLoopRun_patches:
  assumes "afterLoopRun clusterLabel status li b ps evs r"
  shows "list_all (passPatch status li) evs"
proof -
  from assms obtain evs2 rl where
    lr: "localRun b li ps evs2 rl" and
    rest: "if rl = Returns None
           then \<exists>evs3. restRun clusterLabel status li (fold applyEvent evs2 ps) evs3 r \<and> evs = evs2 @ evs3
           else evs = evs2 \<and> r = rl"
    unfolding afterLoopRun_def by blast
  from rest localRun_patches [OF lr] show ?thesis
    by (auto split: if_splits intro: restRun_patches)
qed

lemma passRun_patches:
  assumes "passRun clusterLabel status li ps evs r"
  shows "list_all (passPatch status li) evs"
  using assms unfolding passRun_def
proof (elim disjE exE conjE)
  fix evs1 r1
  assume lr: "loopRun status li
      (filter (\<lambda>q. listedPrimary clusterLabel li q \<and> Pod.Name q \<noteq> Instance.Name li) ps) evs1 r1"
    and rest: "if r1 = Returns None
       then \<exists>evs'. afterLoopRun clusterLabel status li
                     (\<exists>q\<in>set ps. listedPrimary clusterLabel li q \<and> Pod.Name q = Instance.Name li)
                     (fold applyEvent evs1 ps) evs' r \<and> evs = evs1 @ evs'
       else evs = evs1 \<and> r = firstLoopError r1"
  from rest loopRun_patches [OF lr] show ?thesis
    by (auto split: if_splits intro: afterLoopRun_patches)
qed auto

text \<open>The calls of any pass: one \<^verbatim>\<open>HandleError\<close>, or \<^verbatim>\<open>PatchPod\<close> calls of the shape of a pass.\<close>

lemma syncHandler_trace:
  assumes "syncHandler clusterLabel key clc = (r, clc')"
  shows "\<exists>evs. stepsTo clc evs clc' \<and> passShape evs r \<and>
           (evs = [HandleError (Errorf ''key %q in work queue no longer exists'' [key])] \<or>
            (\<forall>ev\<in>set evs. \<exists>old new out. ev = PatchPod old new out))"
proof -
  from syncHandler_runs [OF assms] obtain evs where
    st: "stepsTo clc evs clc'" and
    alt: "(\<exists>err msg args. evs = [] \<and> r = Returns (Some (Wrapf err msg args))) \<or>
          (store clc key = None \<and> r = Returns None \<and>
             evs = [HandleError (Errorf ''key %q in work queue no longer exists'' [key])]) \<or>
          (\<exists>t. store clc key = Some (OtherObj t) \<and> r = Panics \<and> evs = []) \<or>
          (\<exists>status. store clc key = Some (ClusterStatusObj status) \<and>
             passRun clusterLabel status (localInstance clc) (pods clc) evs r)"
    by blast
  from alt have "passShape evs r \<and>
           (evs = [HandleError (Errorf ''key %q in work queue no longer exists'' [key])] \<or>
            (\<forall>ev\<in>set evs. \<exists>old new out. ev = PatchPod old new out))"
  proof (elim disjE exE conjE)
    fix status
    assume pr: "passRun clusterLabel status (localInstance clc) (pods clc) evs r"
    have "\<forall>ev\<in>set evs. \<exists>old new out. ev = PatchPod old new out"
    proof
      fix ev assume "ev \<in> set evs"
      with passRun_patches [OF pr] have "passPatch status (localInstance clc) ev"
        by (simp add: list_all_iff)
      then show "\<exists>old new out. ev = PatchPod old new out"
        by (cases ev) simp_all
    qed
    with passRun_shape [OF pr] show ?thesis by simp
  qed (auto intro: passShape_noFailure)
  with st show ?thesis by blast
qed

lemma failed_last:
  assumes "passShape evs r" "PatchPod old new (Some cause) \<in> set evs"
  shows "\<exists>evs0 wrapped. evs = evs0 @ [PatchPod old new (Some cause)] \<and> noFailure evs0 \<and>
           r = Returns (Some wrapped) \<and> wrapsOnce cause wrapped"
proof -
  have fp: "failedPatch (PatchPod old new (Some cause))"
    by simp
  have nf: "\<not> noFailure evs"
    using assms(2) fp unfolding noFailure_def list_all_iff by blast
  with assms(1) obtain evs0 old' new' cause' wrapped where
    evs: "evs = evs0 @ [PatchPod old' new' (Some cause')]" and
    rest: "noFailure evs0" "r = Returns (Some wrapped)" "wrapsOnce cause' wrapped"
    unfolding passShape_def by blast
  have "PatchPod old new (Some cause) \<notin> set evs0"
    using rest(1) fp unfolding noFailure_def list_all_iff by blast
  with assms(2) evs have "PatchPod old new (Some cause) = PatchPod old' new' (Some cause')"
    by simp
  with evs rest show ?thesis by auto
qed

lemma fold_applyEvent_failed [simp]:
  "fold applyEvent (evs @ [PatchPod old new (Some cause)]) ps = fold applyEvent evs ps"
  by simp

lemma syncHandler_failed:
  assumes run: "syncHandler clusterLabel key clc = (r, clc')"
    and tr: "trace clc' = trace clc @ evs"
    and failed: "PatchPod old new (Some cause) \<in> set evs"
  shows "\<exists>evs0 wrapped. evs = evs0 @ [PatchPod old new (Some cause)] \<and> noFailure evs0 \<and>
           r = Returns (Some wrapped) \<and> wrapsOnce cause wrapped \<and>
           pods clc' = fold applyEvent evs0 (pods clc) \<and>
           (\<forall>ev\<in>set evs. \<exists>old new out. ev = PatchPod old new out)"
proof -
  from syncHandler_trace [OF run] obtain evs' where
    st: "stepsTo clc evs' clc'" and shape: "passShape evs' r" and
    kinds: "evs' = [HandleError (Errorf ''key %q in work queue no longer exists'' [key])] \<or>
            (\<forall>ev\<in>set evs'. \<exists>old new out. ev = PatchPod old new out)"
    by blast
  from st tr have evs: "evs' = evs"
    by (simp add: stepsTo_def)
  from failed_last [OF shape [unfolded evs] failed] obtain evs0 wrapped where
    l: "evs = evs0 @ [PatchPod old new (Some cause)]" "noFailure evs0"
       "r = Returns (Some wrapped)" "wrapsOnce cause wrapped"
    by blast
  from st evs l(1) have "pods clc' = fold applyEvent evs0 (pods clc)"
    by (simp add: stepsTo_def)
  moreover from kinds evs failed have "\<forall>ev\<in>set evs. \<exists>old new out. ev = PatchPod old new out"
    by auto
  ultimately show ?thesis
    using l by blast
qed

lemma processNextWorkItem_failed:
  assumes q: "queue clc = key # rest"
    and p0: "processNextWorkItem clusterLabel clc = (res, clc')"
    and tr: "trace clc' = trace clc @ evs"
    and failed: "PatchPod old new (Some cause) \<in> set evs"
  shows "res = Returns True \<and>
      (\<exists>evs0 wrapped.
         evs = QueueGet # evs0 @
           [PatchPod old new (Some cause), QueueDone key,
            HandleError (ErrorfErr ''Error syncing cluster status: %+v''
                           (Wrapf wrapped ''error syncing %q'' [key])),
            QueueAddRateLimited key] \<and>
         noFailure evs0 \<and> wrapsOnce cause wrapped \<and> QueueForget key \<notin> set evs \<and>
         pods clc' = fold applyEvent evs0 (pods clc))"
proof -
  let ?clc1 = "emit QueueGet (clc\<lparr>queue := rest\<rparr>)"
  obtain rs clc2 where s: "syncHandler clusterLabel key ?clc1 = (rs, clc2)"
    by (cases "syncHandler clusterLabel key ?clc1")
  from syncHandler_trace [OF s] obtain evsS where
    st: "stepsTo ?clc1 evsS clc2" by blast
  then have tr2: "trace clc2 = trace ?clc1 @ evsS" and pods2: "pods clc2 = fold applyEvent evsS (pods clc)"
    by (simp_all add: stepsTo_def emit_def)
  have tr1: "trace ?clc1 = trace clc @ [QueueGet]"
    by (simp add: emit_def)
  from q p0 s have p: "(res, clc') =
     (case rs of
        Returns None \<Rightarrow> (Returns True, emit (QueueDone key) (emit (QueueForget key) clc2))
      | Returns (Some err) \<Rightarrow>
          (Returns True,
           emit (QueueAddRateLimited key)
             (emit (HandleError (ErrorfErr ''Error syncing cluster status: %+v''
                                   (Wrapf err ''error syncing %q'' [key])))
                (emit (QueueDone key) clc2)))
      | Panics \<Rightarrow> (Panics, emit (QueueDone key) clc2)
      | Blocks \<Rightarrow> (Blocks, clc2))"
    by (simp add: processNextWorkItem_def queue_Get_def split: outcome.splits option.splits)
  have inS: "PatchPod old new (Some cause) \<in> set evsS"
  proof -
    from p obtain tail where t: "trace clc' = trace clc2 @ tail" and
      nt: "PatchPod old new (Some cause) \<notin> set tail"
      by (cases rs) (auto simp: emit_def split: option.splits)
    from t tr tr2 tr1 have "evs = QueueGet # evsS @ tail"
      by simp
    with failed nt show ?thesis by auto
  qed
  from syncHandler_failed [OF s tr2 inS] obtain evs0 wrapped where
    l: "evsS = evs0 @ [PatchPod old new (Some cause)]" "noFailure evs0"
       "rs = Returns (Some wrapped)" "wrapsOnce cause wrapped"
       "pods clc2 = fold applyEvent evs0 (pods ?clc1)"
       "\<forall>ev\<in>set evsS. \<exists>old new out. ev = PatchPod old new out"
    by blast
  from p l(3) have res: "res = Returns True" and
    clc': "clc' = emit (QueueAddRateLimited key)
             (emit (HandleError (ErrorfErr ''Error syncing cluster status: %+v''
                                   (Wrapf wrapped ''error syncing %q'' [key])))
                (emit (QueueDone key) clc2))"
    by simp_all
  from clc' tr2 tr1 l(1) tr have evs: "evs = QueueGet # evs0 @
           [PatchPod old new (Some cause), QueueDone key,
            HandleError (ErrorfErr ''Error syncing cluster status: %+v''
                           (Wrapf wrapped ''error syncing %q'' [key])),
            QueueAddRateLimited key]"
    by (simp add: emit_def)
  have "QueueForget key \<notin> set evs"
    using evs l(1) l(6) by auto
  moreover have "pods clc' = fold applyEvent evs0 (pods clc)"
    using clc' l(5) by (simp add: emit_def)
  ultimately show ?thesis
    using res evs l(2) l(4) by blast
qed

text \<open>
  C5. When a \<^verbatim>\<open>PatchPod\<close> call of a pass fails, it is the last call of the pass: every
  call before it succeeded, \<open>syncHandler\<close> returns an error that wraps the error of the
  failed call, and the pod objects are those that the earlier calls of the pass have
  left. In \<open>processNextWorkItem\<close> the calls that follow the failed one are \<^verbatim>\<open>Done\<close>,
  \<^verbatim>\<open>HandleError\<close> and \<^verbatim>\<open>AddRateLimited\<close> of the key, and \<^verbatim>\<open>Forget\<close> is not called.
\<close>

theorem syncHandler_failed_patch:
  "(syncHandler clusterLabel key clc = (r, clc') \<and> trace clc' = trace clc @ evs \<and>
    PatchPod old new (Some cause) \<in> set evs \<longrightarrow>
      (\<exists>evs0 wrapped. evs = evs0 @ [PatchPod old new (Some cause)] \<and> noFailure evs0 \<and>
         r = Returns (Some wrapped) \<and> wrapsOnce cause wrapped \<and>
         pods clc' = fold applyEvent evs0 (pods clc))) \<and>
   (queue clc = key # rest \<and> processNextWorkItem clusterLabel clc = (res, clc') \<and>
    trace clc' = trace clc @ evs \<and> PatchPod old new (Some cause) \<in> set evs \<longrightarrow>
      res = Returns True \<and>
      (\<exists>evs0 wrapped.
         evs = QueueGet # evs0 @
           [PatchPod old new (Some cause), QueueDone key,
            HandleError (ErrorfErr ''Error syncing cluster status: %+v''
                           (Wrapf wrapped ''error syncing %q'' [key])),
            QueueAddRateLimited key] \<and>
         noFailure evs0 \<and> wrapsOnce cause wrapped \<and> QueueForget key \<notin> set evs \<and>
         pods clc' = fold applyEvent evs0 (pods clc)))"
proof (rule conjI; rule impI; elim conjE)
  assume "syncHandler clusterLabel key clc = (r, clc')" "trace clc' = trace clc @ evs"
    "PatchPod old new (Some cause) \<in> set evs"
  from syncHandler_failed [OF this]
  show "\<exists>evs0 wrapped. evs = evs0 @ [PatchPod old new (Some cause)] \<and> noFailure evs0 \<and>
         r = Returns (Some wrapped) \<and> wrapsOnce cause wrapped \<and>
         pods clc' = fold applyEvent evs0 (pods clc)"
    by blast
next
  assume "queue clc = key # rest" "processNextWorkItem clusterLabel clc = (res, clc')"
    "trace clc' = trace clc @ evs" "PatchPod old new (Some cause) \<in> set evs"
  then show "res = Returns True \<and>
      (\<exists>evs0 wrapped.
         evs = QueueGet # evs0 @
           [PatchPod old new (Some cause), QueueDone key,
            HandleError (ErrorfErr ''Error syncing cluster status: %+v''
                           (Wrapf wrapped ''error syncing %q'' [key])),
            QueueAddRateLimited key] \<and>
         noFailure evs0 \<and> wrapsOnce cause wrapped \<and> QueueForget key \<notin> set evs \<and>
         pods clc' = fold applyEvent evs0 (pods clc))"
    by (rule processNextWorkItem_failed)
qed

lemma ident_roleCopy [simp]: "ident (roleCopy q val) = ident q"
  by (simp add: ident_def roleCopy_def setRole_def clearRole_def)

lemma ident_relabeled [simp]: "ident (relabeled status li q) = ident q"
  by (simp add: relabeled_def)

lemma ident_setRole [simp]: "ident (setRole q val) = ident q"
  by (simp add: ident_def setRole_def)













lemma ident_afterPrimaries [simp]: "ident (afterPrimaries clusterLabel status li q) = ident q"
  by (simp add: afterPrimaries_def)

lemma ident_afterLocal [simp]: "ident (afterLocal li q) = ident q"
  by (simp add: afterLocal_def)

lemma ident_afterNonPrimaries [simp]: "ident (afterNonPrimaries clusterLabel status li q) = ident q"
  by (simp add: afterNonPrimaries_def)

lemma firstLoopError_None [simp]: "(firstLoopError r = Returns None) = (r = Returns None)"
  by (cases r rule: firstLoopError.cases) simp_all








lemma roleOf_setRole [simp]: "roleOf (setRole q val) = Some val"
  by (simp add: roleOf_def setRole_def labels_Set_def)

lemma roleOf_clearRole [simp]: "roleOf (clearRole q) = None"
  by (cases "Labels q") (simp_all add: roleOf_def clearRole_def labels_Set_def)

lemma labels_setRole:
  "k \<noteq> LabelMySQLClusterRole \<Longrightarrow> labels_Set (Labels (setRole q val)) k = labels_Set (Labels q) k"
  by (simp add: setRole_def labels_Set_def)

lemma labels_clearRole:
  "k \<noteq> LabelMySQLClusterRole \<Longrightarrow> labels_Set (Labels (clearRole q)) k = labels_Set (Labels q) k"
  by (cases "Labels q") (simp_all add: clearRole_def labels_Set_def)

lemma Name_setRole [simp]: "Pod.Name (setRole q val) = Pod.Name q"
  "Pod.Namespace (setRole q val) = Pod.Namespace q"
  by (simp_all add: setRole_def)

lemma Name_clearRole [simp]: "Pod.Name (clearRole q) = Pod.Name q"
  "Pod.Namespace (clearRole q) = Pod.Namespace q"
  by (simp_all add: clearRole_def)

lemma isMember_setRole [simp]:
  "clusterLabel \<noteq> LabelMySQLClusterRole \<Longrightarrow>
     isMember clusterLabel li (setRole q val) = isMember clusterLabel li q"
  by (simp add: isMember_def labels_setRole)

lemma isMember_clearRole [simp]:
  "clusterLabel \<noteq> LabelMySQLClusterRole \<Longrightarrow>
     isMember clusterLabel li (clearRole q) = isMember clusterLabel li q"
  by (simp add: isMember_def labels_clearRole)

lemma isLocal_setRole [simp]: "isLocal li (setRole q val) = isLocal li q"
  by (simp add: isLocal_def)

lemma isLocal_clearRole [simp]: "isLocal li (clearRole q) = isLocal li q"
  by (simp add: isLocal_def)




lemma roles_distinct [simp]:
  "MySQLClusterRolePrimary \<noteq> MySQLClusterRoleSecondary"
  "MySQLClusterRoleSecondary \<noteq> MySQLClusterRolePrimary"
  "MySQLClusterRolePrimary \<noteq> []" "MySQLClusterRoleSecondary \<noteq> []"
  by (simp_all add: MySQLClusterRolePrimary_def MySQLClusterRoleSecondary_def)

lemma relabeled_simps:
  "inCluster status (Sprintf_s_d (Pod.Name q) (Port li)) \<Longrightarrow>
     relabeled status li q = setRole q MySQLClusterRoleSecondary"
  "\<not> inCluster status (Sprintf_s_d (Pod.Name q) (Port li)) \<Longrightarrow> relabeled status li q = clearRole q"
  by (simp_all add: relabeled_def roleFor_def roleCopy_def)

lemma Name_relabeled [simp]: "Pod.Name (relabeled status li q) = Pod.Name q"
  "Pod.Namespace (relabeled status li q) = Pod.Namespace q"
  by (simp_all add: relabeled_def roleCopy_def)

lemma isMember_relabeled [simp]:
  "clusterLabel \<noteq> LabelMySQLClusterRole \<Longrightarrow>
     isMember clusterLabel li (relabeled status li' q) = isMember clusterLabel li q"
  by (simp add: relabeled_def roleCopy_def)

lemma isLocal_relabeled [simp]: "isLocal li (relabeled status li' q) = isLocal li q"
  by (simp add: isLocal_def)

lemma roleOf_relabeled [simp]:
  "roleOf (relabeled status li q) =
     (if inCluster status (Sprintf_s_d (Pod.Name q) (Port li)) then Some MySQLClusterRoleSecondary
      else None)"
  by (simp add: relabeled_simps)



lemma afterPass_frame [simp]:
  "Pod.Name (afterPass clusterLabel status li q) = Pod.Name q"
  "Pod.Namespace (afterPass clusterLabel status li q) = Pod.Namespace q"
  "isLocal li (afterPass clusterLabel status li q) = isLocal li q"
  by (simp_all add: afterPass_def afterNonPrimaries_def afterLocal_def afterPrimaries_def isLocal_def)

lemma afterPass_member [simp]:
  "clusterLabel \<noteq> LabelMySQLClusterRole \<Longrightarrow>
     isMember clusterLabel li (afterPass clusterLabel status li q) = isMember clusterLabel li q"
  by (simp add: afterPass_def afterNonPrimaries_def afterLocal_def afterPrimaries_def)




theorem syncHandler_failed_patch_witness:
  "fst (syncHandler exampleClusterLabel ''mysql'' conflictController) =
     Returns (Some (Wrapf (ApiError ''conflict'') ''labeling %s/%s as primary'' [''default'', ''mysql-0''])) \<and>
   trace (snd (syncHandler exampleClusterLabel ''mysql'' conflictController)) =
     [PatchPod (examplePod ''mysql-1'' (Some ''primary'')) (examplePod ''mysql-1'' (Some ''secondary'')) None,
      PatchPod (examplePod ''mysql-0'' None) (examplePod ''mysql-0'' (Some ''primary''))
        (Some (ApiError ''conflict''))] \<and>
   podRoles (snd (syncHandler exampleClusterLabel ''mysql'' conflictController)) =
     [(''mysql-0'', None), (''mysql-1'', Some ''secondary''), (''mysql-2'', Some ''secondary'')] \<and>
   fst (processNextWorkItem exampleClusterLabel conflictController) = Returns True \<and>
   trace (snd (processNextWorkItem exampleClusterLabel conflictController)) =
     [QueueGet,
      PatchPod (examplePod ''mysql-1'' (Some ''primary'')) (examplePod ''mysql-1'' (Some ''secondary'')) None,
      PatchPod (examplePod ''mysql-0'' None) (examplePod ''mysql-0'' (Some ''primary''))
        (Some (ApiError ''conflict'')),
      QueueDone ''mysql'',
      HandleError (ErrorfErr ''Error syncing cluster status: %+v''
        (Wrapf (Wrapf (ApiError ''conflict'') ''labeling %s/%s as primary'' [''default'', ''mysql-0''])
           ''error syncing %q'' [''mysql''])),
      QueueAddRateLimited ''mysql'']"
  using syncHandler_failed_patch [of exampleClusterLabel "''mysql''" conflictController
      "fst (syncHandler exampleClusterLabel ''mysql'' conflictController)"
      "snd (syncHandler exampleClusterLabel ''mysql'' conflictController)"
      "trace (snd (syncHandler exampleClusterLabel ''mysql'' conflictController))"
      "examplePod ''mysql-0'' None" "examplePod ''mysql-0'' (Some ''primary'')" "ApiError ''conflict''"
      "[]" "Returns True"]
  by (simp add: example_defs labeler_defs conflictController_def digits_3306
        processNextWorkItem_def queue_Get_def fun_upd_twist)















end
